theory Spec2Isabelle
  imports Complex_Main
begin

section \<open>JavaScript values\<close>

text \<open>
  The dashboard is dynamically typed, and several of its checks (\<open>!x\<close>, \<open>typeof\<close>,
  \<open>x || d\<close>) depend on the run-time type of a value.  Primitive values are modelled by
  \<open>jsval\<close>; numbers are exact rationals (IEEE rounding and the infinities are not
  modelled), \<open>NaN\<close> is a value of its own, and strings are lists of 7-bit characters.
  A decoded wire payload is a primitive, an array, or an object with primitive fields.
\<close>

datatype jsval = Undefined | Null | Bool bool | Num rat | NaN | Str string

datatype payload = Prim jsval | Arr "jsval list" | Object "(string \<times> jsval) list"

text \<open>Built-in parsers of the host that the code calls on strings: \<open>Date.parse\<close> (through
  \<open>new Date(s)\<close>) and the string-to-number conversion of a relational comparison.  Both are
  implementation-defined, so they are parameters; \<open>None\<close> stands for \<open>NaN\<close>.\<close>

record host =
  dateParse :: "string \<Rightarrow> rat option"
  stringToNumber :: "string \<Rightarrow> rat option"

fun truthy :: "jsval \<Rightarrow> bool" where
  "truthy Undefined = False"
| "truthy Null = False"
| "truthy (Bool b) = b"
| "truthy (Num x) = (x \<noteq> 0)"
| "truthy NaN = False"
| "truthy (Str s) = (s \<noteq> [])"

fun truthyPayload :: "payload \<Rightarrow> bool" where
  "truthyPayload (Prim v) = truthy v"
| "truthyPayload (Arr xs) = True"
| "truthyPayload (Object fs) = True"

text \<open>\<open>typeof x === 'object'\<close>: true of objects, arrays and \<open>null\<close>.\<close>

fun typeofObject :: "payload \<Rightarrow> bool" where
  "typeofObject (Prim v) = (v = Null)"
| "typeofObject (Arr xs) = True"
| "typeofObject (Object fs) = True"

text \<open>Reading a named property.  An object is the list of its properties, each name bound
  once; the names read by the code (\<open>productName\<close>, \<open>price\<close>, \<open>timestamp\<close>, \<open>id\<close>) are
  undefined on arrays and on primitives.\<close>

fun getProp :: "payload \<Rightarrow> string \<Rightarrow> jsval" where
  "getProp (Object fs) k = (case map_of fs k of Some v \<Rightarrow> v | None \<Rightarrow> Undefined)"
| "getProp (Arr xs) k = Undefined"
| "getProp (Prim v) k = Undefined"

text \<open>\<open>ToNumber\<close>, as applied by \<open>>=\<close>, \<open><=\<close> and \<open><\<close> against a number.\<close>

fun toNumber :: "host \<Rightarrow> jsval \<Rightarrow> rat option" where
  "toNumber h Undefined = None"
| "toNumber h Null = Some 0"
| "toNumber h (Bool b) = Some (if b then 1 else 0)"
| "toNumber h (Num x) = Some x"
| "toNumber h NaN = None"
| "toNumber h (Str s) = stringToNumber h s"

text \<open>\<open>!isNaN(new Date(v).getTime())\<close>: the time value is clipped to
  \<open>\<plusminus>8.64e15\<close> ms.\<close>

fun validDate :: "host \<Rightarrow> jsval \<Rightarrow> bool" where
  "validDate h Undefined = False"
| "validDate h Null = True"
| "validDate h (Bool b) = True"
| "validDate h (Num x) = (\<bar>x\<bar> \<le> 8640000000000000)"
| "validDate h NaN = False"
| "validDate h (Str s) = (dateParse h s \<noteq> None)"

section \<open>Strings\<close>

definition isDigit :: "char \<Rightarrow> bool" where
  "isDigit c = (c \<in> set ''0123456789'')"

definition isAlpha :: "char \<Rightarrow> bool" where
  "isAlpha c = (c \<in> set ''abcdefghijklmnopqrstuvwxyzABCDEFGHIJKLMNOPQRSTUVWXYZ'')"

definition isSpace :: "char \<Rightarrow> bool" where
  "isSpace c = (c \<in> set [CHR 0x09, CHR 0x0A, CHR 0x0B, CHR 0x0C, CHR 0x0D, CHR 0x20])"

definition toLowerChar :: "char \<Rightarrow> char" where
  "toLowerChar c =
     (case map_of (zip ''ABCDEFGHIJKLMNOPQRSTUVWXYZ'' ''abcdefghijklmnopqrstuvwxyz'') c of
        Some l \<Rightarrow> l | None \<Rightarrow> c)"

definition toLowerCase :: "string \<Rightarrow> string" where
  "toLowerCase s = map toLowerChar s"

definition trim :: "string \<Rightarrow> string" where
  "trim s = rev (dropWhile isSpace (rev (dropWhile isSpace s)))"

fun startsWith :: "string \<Rightarrow> string \<Rightarrow> bool" where
  "startsWith s [] = True"
| "startsWith [] (k # ks) = False"
| "startsWith (c # cs) (k # ks) = (c = k \<and> startsWith cs ks)"

text \<open>\<open>s.includes(k)\<close>: \<open>k\<close> occurs in \<open>s\<close> as a contiguous substring.\<close>

fun includes_str :: "string \<Rightarrow> string \<Rightarrow> bool" where
  "includes_str [] k = (k = [])"
| "includes_str (c # cs) k = (startsWith (c # cs) k \<or> includes_str cs k)"

definition digitVal :: "char \<Rightarrow> nat" where
  "digitVal c = (case map_of (zip ''0123456789'' [0, 1, 2, 3, 4, 5, 6, 7, 8, 9]) c of Some d \<Rightarrow> d | None \<Rightarrow> 0)"

definition digitsVal :: "string \<Rightarrow> nat" where
  "digitsVal s = foldl (\<lambda>acc c. 10 * acc + digitVal c) 0 s"

section \<open>Constants\<close>

text \<open>\<open>CONFIG.DATA.CACHE_EXPIRY\<close>, \<open>CONFIG.UI.MAX_FEED_ITEMS\<close> and the
  \<open>CONFIG.WEBSOCKET\<close> defaults.\<close>

definition CACHE_EXPIRY :: rat where
  "CACHE_EXPIRY = 24 * 60 * 60 * 1000"

definition MAX_FEED_ITEMS :: nat where
  "MAX_FEED_ITEMS = 50"

definition RECONNECT_DELAY :: rat where
  "RECONNECT_DELAY = 3000"

definition MAX_RECONNECT_ATTEMPTS :: nat where
  "MAX_RECONNECT_ATTEMPTS = 10"

text \<open>\<open>REGEX.PRODUCT_NAME = /^[a-zA-Z0-9\s\-_]{1,50}$/\<close>.\<close>

definition nameChar :: "char \<Rightarrow> bool" where
  "nameChar c = (isAlpha c \<or> isDigit c \<or> isSpace c \<or> c = CHR ''-'' \<or> c = CHR ''_'')"

definition PRODUCT_NAME_test :: "string \<Rightarrow> bool" where
  "PRODUCT_NAME_test s = (1 \<le> length s \<and> length s \<le> 50 \<and> list_all nameChar s)"

text \<open>\<open>REGEX.PRICE = /\$?(\d+\.?\d*)/\<close>: the leftmost match starts at the first digit of
  the text (after an optional dollar sign); group 1 is that run of digits, an optional dot and
  the digits after it.  The result is the pair of the integer and the fractional digits.\<close>

definition PRICE_match :: "string \<Rightarrow> (string \<times> string) option" where
  "PRICE_match s =
     (let r = dropWhile (\<lambda>c. \<not> isDigit c) s in
      if r = [] then None
      else Some (takeWhile isDigit r,
                 (case dropWhile isDigit r of
                    [] \<Rightarrow> []
                  | c # r' \<Rightarrow> if c = CHR ''.'' then takeWhile isDigit r' else [])))"

text \<open>\<open>parseFloat\<close> of group 1.\<close>

definition parseFloatDigits :: "string \<times> string \<Rightarrow> rat" where
  "parseFloatDigits m = of_nat (digitsVal (fst m)) + of_nat (digitsVal (snd m)) / 10 ^ length (snd m)"

text \<open>\<open>parseFloat(x.toFixed(2))\<close>: the nearest multiple of 0.01, a tie going away from
  zero.\<close>

definition toFixed2 :: "rat \<Rightarrow> rat" where
  "toFixed2 x = sgn x * of_int \<lfloor>\<bar>x\<bar> * 100 + 1 / 2\<rfloor> / 100"

text \<open>The entries of \<open>PRODUCT_MAPPING\<close>, in the order of the object literal.  An emoji is
  written as its code point.\<close>

record product_info =
  emoji :: string
  category :: string
  color :: string

definition defaultInfo :: product_info where
  "defaultInfo = \<lparr>emoji = ''U+1F37F'', category = ''other'', color = ''#666666''\<rparr>"

definition PRODUCT_MAPPING :: "(string \<times> product_info) list" where
  "PRODUCT_MAPPING =
    [(''energy drink'', \<lparr>emoji = ''U+26A1'', category = ''beverages'', color = ''#ff6b6b''\<rparr>),
     (''soda'', \<lparr>emoji = ''U+1F964'', category = ''beverages'', color = ''#4ecdc4''\<rparr>),
     (''cola'', \<lparr>emoji = ''U+1F964'', category = ''beverages'', color = ''#45b7d1''\<rparr>),
     (''pepsi'', \<lparr>emoji = ''U+1F964'', category = ''beverages'', color = ''#96ceb4''\<rparr>),
     (''coke'', \<lparr>emoji = ''U+1F964'', category = ''beverages'', color = ''#feca57''\<rparr>),
     (''water'', \<lparr>emoji = ''U+1F4A7'', category = ''beverages'', color = ''#74b9ff''\<rparr>),
     (''juice'', \<lparr>emoji = ''U+1F9C3'', category = ''beverages'', color = ''#fd79a8''\<rparr>),
     (''coffee'', \<lparr>emoji = ''U+2615'', category = ''beverages'', color = ''#6c5ce7''\<rparr>),
     (''tea'', \<lparr>emoji = ''U+1F375'', category = ''beverages'', color = ''#a29bfe''\<rparr>),
     (''chocolate'', \<lparr>emoji = ''U+1F36B'', category = ''snacks'', color = ''#8b4513''\<rparr>),
     (''candy'', \<lparr>emoji = ''U+1F36C'', category = ''snacks'', color = ''#ff69b4''\<rparr>),
     (''chips'', \<lparr>emoji = ''U+1F37F'', category = ''snacks'', color = ''#ffa500''\<rparr>),
     (''popcorn'', \<lparr>emoji = ''U+1F37F'', category = ''snacks'', color = ''#ffeb3b''\<rparr>),
     (''pretzels'', \<lparr>emoji = ''U+1F968'', category = ''snacks'', color = ''#8bc34a''\<rparr>),
     (''cookies'', \<lparr>emoji = ''U+1F36A'', category = ''snacks'', color = ''#795548''\<rparr>),
     (''nuts'', \<lparr>emoji = ''U+1F95C'', category = ''snacks'', color = ''#ff9800''\<rparr>),
     (''crackers'', \<lparr>emoji = ''U+1F358'', category = ''snacks'', color = ''#607d8b''\<rparr>),
     (''gum'', \<lparr>emoji = ''U+1F36C'', category = ''snacks'', color = ''#e91e63''\<rparr>),
     (''sandwich'', \<lparr>emoji = ''U+1F96A'', category = ''food'', color = ''#ff5722''\<rparr>),
     (''salad'', \<lparr>emoji = ''U+1F957'', category = ''food'', color = ''#4caf50''\<rparr>),
     (''fruit'', \<lparr>emoji = ''U+1F34E'', category = ''food'', color = ''#f44336''\<rparr>),
     (''yogurt'', \<lparr>emoji = ''U+1F95B'', category = ''food'', color = ''#2196f3''\<rparr>),
     (''protein'', \<lparr>emoji = ''U+1F4AA'', category = ''food'', color = ''#9c27b0''\<rparr>),
     (''granola'', \<lparr>emoji = ''U+1F33E'', category = ''food'', color = ''#795548''\<rparr>),
     (''default'', defaultInfo)]"

text \<open>\<open>PRODUCT_MAPPING\<close> is a plain object, so \<open>PRODUCT_MAPPING[k]\<close> also finds what the
  object inherits from \<open>Object.prototype\<close>.  The key is lower-cased before the lookup, and the
  inherited property names without an upper-case letter are these two; both hold a truthy
  value (the \<open>Object\<close> function, the prototype object) that has no \<open>category\<close>, \<open>emoji\<close> or
  \<open>color\<close> and no enumerable own property.\<close>

definition inheritedKey :: "string \<Rightarrow> bool" where
  "inheritedKey k = (k = ''constructor'' \<or> k = ''__proto__'')"

datatype info_result = Entry product_info | Inherited

section \<open>Helper utilities\<close>

fun getProductInfo :: "jsval \<Rightarrow> info_result" where
  "getProductInfo (Str s) =
     (if s = [] then Entry defaultInfo
      else let product = trim (toLowerCase s) in
        (case map_of PRODUCT_MAPPING product of
           Some v \<Rightarrow> Entry v
         | None \<Rightarrow>
             if inheritedKey product then Inherited
             else (case find (\<lambda>(key, v). key \<noteq> ''default'' \<and> includes_str product key) PRODUCT_MAPPING of
                     Some (key, v) \<Rightarrow> Entry v
                   | None \<Rightarrow> Entry defaultInfo)))"
| "getProductInfo v = Entry defaultInfo"

text \<open>Reading \<open>.category\<close>, \<open>.emoji\<close>, \<open>.color\<close> of the lookup result; \<open>None\<close> is
  \<open>undefined\<close>.\<close>

fun infoCategory :: "info_result \<Rightarrow> string option" where
  "infoCategory (Entry v) = Some (category v)"
| "infoCategory Inherited = None"

fun infoEmoji :: "info_result \<Rightarrow> string option" where
  "infoEmoji (Entry v) = Some (emoji v)"
| "infoEmoji Inherited = None"

fun infoColor :: "info_result \<Rightarrow> string option" where
  "infoColor (Entry v) = Some (color v)"
| "infoColor Inherited = None"

text \<open>\<open>extractPrice\<close>; \<open>None\<close> is \<open>NaN\<close>.\<close>

fun extractPrice :: "jsval \<Rightarrow> rat option" where
  "extractPrice (Num x) = Some (toFixed2 x)"
| "extractPrice NaN = None"
| "extractPrice (Str s) =
     Some (case PRICE_match s of Some m \<Rightarrow> parseFloatDigits m | None \<Rightarrow> 0)"
| "extractPrice v = Some 0"

definition calculatePercentageChange :: "rat \<Rightarrow> rat \<Rightarrow> rat" where
  "calculatePercentageChange current previous =
     (if previous = 0 then (if current > 0 then 100 else 0)
      else ((current - previous) / previous) * 100)"

datatype period = P_TODAY | P_WEEK | P_MONTH | P_ALL

text \<open>The clock of one synchronous call: \<open>Date.now()\<close> and the local-calendar instants that
  \<open>getTimePeriod\<close> and \<open>getPreviousPeriodData\<close> derive from it with \<open>Date\<close> arithmetic in
  the host's time zone (local midnight today, the midnight seven calendar days before it, the
  midnight one calendar month before it, local midnight yesterday).\<close>

record clock =
  now :: rat
  todayStart :: rat
  weekStart :: rat
  monthStart :: rat
  yesterdayStart :: rat

fun getTimePeriod :: "clock \<Rightarrow> period \<Rightarrow> rat \<times> rat" where
  "getTimePeriod c P_TODAY = (todayStart c, now c)"
| "getTimePeriod c P_WEEK = (weekStart c, now c)"
| "getTimePeriod c P_MONTH = (monthStart c, now c)"
| "getTimePeriod c P_ALL = (0, now c)"

text \<open>\<open>calculateStats\<close> of a list of numbers.\<close>

record stats =
  stCount :: nat
  stSum :: rat
  stAverage :: rat
  stMin :: rat
  stMax :: rat
  stMedian :: rat

definition calculateStats :: "rat list \<Rightarrow> stats" where
  "calculateStats numbers =
     (if numbers = [] then
        \<lparr>stCount = 0, stSum = 0, stAverage = 0, stMin = 0, stMax = 0, stMedian = 0\<rparr>
      else
        let sorted = sort numbers;
            sum = foldl (\<lambda>acc val. acc + val) 0 numbers;
            count = length numbers
        in \<lparr>stCount = count, stSum = sum, stAverage = sum / of_nat count,
            stMin = sorted ! 0, stMax = sorted ! (length sorted - 1),
            stMedian = (if count mod 2 = 0
                        then (sorted ! (count div 2 - 1) + sorted ! (count div 2)) / 2
                        else sorted ! (count div 2))\<rparr>)"

text \<open>\<open>validateSaleData\<close>: the list of error messages.\<close>

definition validateSaleData :: "host \<Rightarrow> payload \<Rightarrow> string list" where
  "validateSaleData h sale =
     (if \<not> truthyPayload sale \<or> \<not> typeofObject sale then [''Sale must be an object'']
      else
        (case getProp sale ''productName'' of
           Str s \<Rightarrow>
             if s = [] then [''Product name is required and must be a string'']
             else if \<not> PRODUCT_NAME_test s then [''Product name contains invalid characters'']
             else []
         | _ \<Rightarrow> [''Product name is required and must be a string''])
        @ (if getProp sale ''price'' \<noteq> Undefined then
             (case extractPrice (getProp sale ''price'') of
                None \<Rightarrow> [''Price must be a valid positive number'']
              | Some price \<Rightarrow> if price < 0 then [''Price must be a valid positive number''] else [])
           else [])
        @ (if getProp sale ''timestamp'' \<noteq> Undefined then
             (if \<not> validDate h (getProp sale ''timestamp'')
              then [''Timestamp must be a valid date''] else [])
           else []))"

section \<open>Event store\<close>

text \<open>An enriched sale, as \<open>enrichSaleData\<close> builds it.  The fields derived from the local
  calendar (\<open>date\<close>, \<open>hour\<close>, \<open>dayOfWeek\<close>, \<open>weekOfYear\<close>, \<open>month\<close>, \<open>year\<close>) and
  the other fields copied from the payload are not read by the code modelled here and are left
  out.  \<open>None\<close> is \<open>undefined\<close>.\<close>

record sale =
  productName :: jsval
  price :: rat
  timestamp :: jsval
  saleId :: jsval
  saleCategory :: "string option"
  saleEmoji :: "string option"
  saleColor :: "string option"

text \<open>What one call of \<open>addSale\<close> takes from its environment: \<open>Date.now()\<close>, the identifier
  that \<open>generateId\<close> draws, \<open>Math.random()\<close>, whether the write to the indexed store
  succeeds, and whether the write to \<open>localStorage\<close> and the write that retries it stay within
  the quota.\<close>

record sale_env =
  saleNow :: rat
  saleNewId :: string
  saleRandom :: rat
  idbOk :: bool
  lsOk :: bool
  lsRetryOk :: bool

text \<open>The value stored under \<open>STORAGE_KEYS.SALES_DATA\<close>: nothing, an array of sales, or a
  JSON value that is not an array and has neither \<open>push\<close> nor \<open>length\<close> (an object, a
  number).\<close>

datatype ls_slot = Missing | Stored "sale list" | NotArray

text \<open>\<open>db\<close> is the \<open>sales\<close> table of the indexed store, \<open>None\<close> when IndexedDB is not
  supported or not yet open.\<close>

record storage =
  isLocalStorageSupported :: bool
  db :: "sale list option"
  localSales :: ls_slot

text \<open>\<open>getItem(STORAGE_KEYS.SALES_DATA, [])\<close>; \<open>None\<close> is a value that is not an array.\<close>

definition getItemSales :: "storage \<Rightarrow> sale list option" where
  "getItemSales st =
     (if \<not> isLocalStorageSupported st then Some []
      else (case localSales st of Missing \<Rightarrow> Some [] | Stored xs \<Rightarrow> Some xs | NotArray \<Rightarrow> None))"

text \<open>\<open>handleStorageQuotaExceeded\<close>: keeps the latest 50 of more than 100 stored sales.  Its
  own write goes through \<open>setItem\<close> again; when that write fails as well the two methods call
  each other without end and the call stack overflows, which is the result \<open>None\<close>.\<close>

definition handleStorageQuotaExceeded :: "sale_env \<Rightarrow> storage \<Rightarrow> storage option" where
  "handleStorageQuotaExceeded e st =
     (case localSales st of
        Stored xs \<Rightarrow>
          if length xs > 100 then
            (if lsRetryOk e then Some (st\<lparr>localSales := Stored (drop (length xs - 50) xs)\<rparr>)
             else None)
          else Some st
      | _ \<Rightarrow> Some st)"

text \<open>\<open>setItem(STORAGE_KEYS.SALES_DATA, value)\<close>: the returned flag and the new storage;
  \<open>None\<close> when an exception escapes.\<close>

definition setItemSales :: "sale_env \<Rightarrow> storage \<Rightarrow> sale list \<Rightarrow> (bool \<times> storage) option" where
  "setItemSales e st v =
     (if \<not> isLocalStorageSupported st then Some (False, st)
      else if lsOk e then Some (True, st\<lparr>localSales := Stored v\<rparr>)
      else (case handleStorageQuotaExceeded e st of
              None \<Rightarrow> None
            | Some st' \<Rightarrow> Some (False, st')))"

text \<open>\<open>StorageManager.addSale\<close>; \<open>None\<close> when the returned promise rejects.\<close>

definition storage_addSale :: "sale_env \<Rightarrow> storage \<Rightarrow> sale \<Rightarrow> (bool \<times> storage) option" where
  "storage_addSale e st s =
     (let saleData = s\<lparr>saleId := Num (saleNow e + saleRandom e),
                        timestamp := (if truthy (timestamp s) then timestamp s
                                      else Num (saleNow e))\<rparr>
      in case (if idbOk e then db st else None) of
           Some xs \<Rightarrow> Some (True, st\<lparr>db := Some (xs @ [saleData])\<rparr>)
         | None \<Rightarrow>
             (case getItemSales st of
                None \<Rightarrow> None
              | Some xs \<Rightarrow>
                  let pushed = xs @ [saleData];
                      kept = (if length pushed > MAX_FEED_ITEMS * 2
                              then drop (length pushed - MAX_FEED_ITEMS) pushed else pushed)
                  in setItemSales e st kept))"

section \<open>Analytics manager\<close>

record metric =
  current :: rat
  previous :: rat
  change :: rat

record comparison =
  cmpSales :: metric
  cmpRevenue :: metric
  cmpAveragePurchase :: metric

text \<open>The snapshot that \<open>calculateAnalytics\<close> returns: its totals, the price statistics (set
  only when there is data) and the comparison block.  The rankings, the histograms, the time
  series and the insight messages of the source are not modelled.\<close>

record analytics =
  anPeriod :: period
  totalSales :: nat
  totalRevenue :: rat
  averagePurchase :: rat
  minPurchase :: "rat option"
  maxPurchase :: "rat option"
  medianPurchase :: "rat option"
  comparisonToPrevious :: "comparison option"

record cache_entry =
  entryData :: analytics
  entryTimestamp :: rat

text \<open>The state of the \<open>AnalyticsManager\<close> together with the storage singleton it writes
  to.  The cache is keyed by the period (\<open>analytics_<period>\<close> in the source).\<close>

record analytics_manager =
  salesData :: "sale list"
  cache :: "period \<rightharpoonup> cache_entry"
  cacheExpiry :: rat
  store :: storage

definition newAnalyticsManager :: "storage \<Rightarrow> analytics_manager" where
  "newAnalyticsManager s = \<lparr>salesData = [], cache = Map.empty, cacheExpiry = CACHE_EXPIRY, store = s\<rparr>"

definition enrichSaleData :: "sale_env \<Rightarrow> payload \<Rightarrow> sale" where
  "enrichSaleData e s =
     (let productInfo = getProductInfo (getProp s ''productName'') in
      \<lparr>productName = getProp s ''productName'',
       price = (case extractPrice (getProp s ''price'') of Some p \<Rightarrow> p | None \<Rightarrow> 0),
       timestamp = (if truthy (getProp s ''timestamp'') then getProp s ''timestamp''
                    else Num (saleNow e)),
       saleId = (if truthy (getProp s ''id'') then getProp s ''id'' else Str (saleNewId e)),
       saleCategory = infoCategory productInfo,
       saleEmoji = infoEmoji productInfo,
       saleColor = infoColor productInfo\<rparr>)"

definition invalidateCache :: "analytics_manager \<Rightarrow> analytics_manager" where
  "invalidateCache m = m\<lparr>cache := Map.empty\<rparr>"

text \<open>\<open>addSale\<close>: the returned flag and the new state.  The sale is put in front of the working
  set before the write to storage, and the cache is cleared after it; when the write throws, the
  handler returns \<open>false\<close> with the working set already extended.\<close>

definition addSale :: "host \<Rightarrow> sale_env \<Rightarrow> analytics_manager \<Rightarrow> payload \<Rightarrow> bool \<times> analytics_manager" where
  "addSale h e m s =
     (if validateSaleData h s \<noteq> [] then (False, m)
      else
        let enrichedSale = enrichSaleData e s;
            m1 = m\<lparr>salesData := enrichedSale # salesData m\<rparr>
        in case storage_addSale e (store m1) enrichedSale of
             None \<Rightarrow> (False, m1)
           | Some (ok, st') \<Rightarrow> (True, invalidateCache (m1\<lparr>store := st'\<rparr>)))"

definition inRange :: "host \<Rightarrow> rat \<Rightarrow> rat \<Rightarrow> jsval \<Rightarrow> bool" where
  "inRange h start end v = (case toNumber h v of None \<Rightarrow> False | Some t \<Rightarrow> start \<le> t \<and> t \<le> end)"

definition filterByTimePeriod :: "host \<Rightarrow> clock \<Rightarrow> sale list \<Rightarrow> period \<Rightarrow> sale list" where
  "filterByTimePeriod h c data p =
     (case getTimePeriod c p of (start, end) \<Rightarrow> filter (\<lambda>item. inRange h start end (timestamp item)) data)"

definition day_ms :: rat where
  "day_ms = 24 * 60 * 60 * 1000"

definition getPreviousPeriodData :: "host \<Rightarrow> clock \<Rightarrow> sale list \<Rightarrow> period \<Rightarrow> sale list" where
  "getPreviousPeriodData h c data p =
     (let window = (case p of
                      P_TODAY \<Rightarrow> Some (yesterdayStart c, yesterdayStart c + day_ms)
                    | P_WEEK \<Rightarrow> Some (now c - 7 * day_ms - 7 * day_ms, now c - 7 * day_ms)
                    | P_MONTH \<Rightarrow> Some (now c - 30 * day_ms - 30 * day_ms, now c - 30 * day_ms)
                    | P_ALL \<Rightarrow> None)
      in case window of
           None \<Rightarrow> []
         | Some (startTime, endTime) \<Rightarrow>
             filter (\<lambda>s. case toNumber h (timestamp s) of
                            None \<Rightarrow> False
                          | Some t \<Rightarrow> startTime \<le> t \<and> t < endTime) data)"

text \<open>\<open>calculateBasicStats\<close>: count, revenue and average.\<close>

definition calculateBasicStats :: "sale list \<Rightarrow> rat \<times> rat \<times> rat" where
  "calculateBasicStats data =
     (let count = length data;
          revenue = foldl (\<lambda>sum s. sum + price s) 0 data;
          average = (if count > 0 then revenue / of_nat count else 0)
      in (of_nat count, revenue, average))"

definition mkMetric :: "rat \<Rightarrow> rat \<Rightarrow> metric" where
  "mkMetric cur prev = \<lparr>current = cur, previous = prev, change = calculatePercentageChange cur prev\<rparr>"

definition getComparisonToPrevious :: "host \<Rightarrow> clock \<Rightarrow> sale list \<Rightarrow> period \<Rightarrow> comparison option" where
  "getComparisonToPrevious h c data p =
     (let currentData = filterByTimePeriod h c data p;
          previousPeriodData = getPreviousPeriodData h c data p
      in if previousPeriodData = [] then None
         else (case (calculateBasicStats currentData, calculateBasicStats previousPeriodData) of
                 ((cc, cr, ca), (pc, pr, pa)) \<Rightarrow>
                   Some \<lparr>cmpSales = mkMetric cc pc, cmpRevenue = mkMetric cr pr,
                         cmpAveragePurchase = mkMetric ca pa\<rparr>))"

definition calculateAnalytics :: "host \<Rightarrow> clock \<Rightarrow> analytics_manager \<Rightarrow> sale list \<Rightarrow> period \<Rightarrow> analytics" where
  "calculateAnalytics h c m data p =
     (if data = [] then
        \<lparr>anPeriod = p, totalSales = length data, totalRevenue = 0, averagePurchase = 0,
         minPurchase = None, maxPurchase = None, medianPurchase = None,
         comparisonToPrevious = None\<rparr>
      else
        let st = calculateStats (map price data) in
        \<lparr>anPeriod = p, totalSales = length data, totalRevenue = stSum st,
         averagePurchase = stAverage st, minPurchase = Some (stMin st),
         maxPurchase = Some (stMax st), medianPurchase = Some (stMedian st),
         comparisonToPrevious = getComparisonToPrevious h c (salesData m) p\<rparr>)"

text \<open>The second half of \<open>getAnalytics\<close>: calculate fresh analytics from the working set and
  cache the result under the period with the current time.\<close>

definition computeAndCache :: "host \<Rightarrow> clock \<Rightarrow> analytics_manager \<Rightarrow> period \<Rightarrow> analytics \<times> analytics_manager" where
  "computeAndCache h c m p =
     (let filteredData = filterByTimePeriod h c (salesData m) p;
          a = calculateAnalytics h c m filteredData p
      in (a, m\<lparr>cache := (cache m)(p \<mapsto> \<lparr>entryData = a, entryTimestamp = now c\<rparr>)\<rparr>))"

definition getAnalytics :: "host \<Rightarrow> clock \<Rightarrow> analytics_manager \<Rightarrow> period \<Rightarrow> bool \<Rightarrow> analytics \<times> analytics_manager" where
  "getAnalytics h c m p useCache =
     (case (if useCache then cache m p else None) of
        Some cached \<Rightarrow>
          if now c - entryTimestamp cached < cacheExpiry m then (entryData cached, m)
          else computeAndCache h c m p
      | None \<Rightarrow> computeAndCache h c m p)"

text \<open>Ingesting a sequence of payloads in order, each with the environment of its call.\<close>

fun addSales :: "host \<Rightarrow> analytics_manager \<Rightarrow> (sale_env \<times> payload) list \<Rightarrow> analytics_manager" where
  "addSales h m [] = m"
| "addSales h m ((e, s) # es) = addSales h (snd (addSale h e m s)) es"

section \<open>Inventory manager\<close>

text \<open>An inventory record.  Stock levels and counters are integers: the code stores the
  results of \<open>parseInt\<close> and of integer arithmetic on them.  \<open>None\<close> is \<open>undefined\<close>.\<close>

record product =
  pId :: string
  pName :: string
  currentStock :: int
  minStock :: int
  maxStock :: int
  pPrice :: rat
  pCategory :: "string option"
  pEmoji :: "string option"
  pColor :: "string option"
  supplier :: string
  lastRestocked :: rat
  lastUpdated :: rat
  isActive :: bool
  pTotalSales :: int

text \<open>The argument of \<open>addProduct\<close>.  A numeric field holds what \<open>parseInt\<close> or
  \<open>parseFloat\<close> makes of it (\<open>None\<close> is \<open>NaN\<close>), another optional field its value when
  that is truthy, and \<open>pdIsActive\<close> is \<open>productData.isActive !== false\<close>.\<close>

record product_data =
  pdId :: "string option"
  pdName :: jsval
  pdCurrentStock :: "int option"
  pdMinStock :: "int option"
  pdMaxStock :: "int option"
  pdPrice :: "rat option"
  pdCategory :: "string option"
  pdSupplier :: "string option"
  pdLastRestocked :: "rat option"
  pdIsActive :: bool
  pdTotalSales :: "int option"

text \<open>What one call takes from its environment: \<open>Date.now()\<close>, the identifier that
  \<open>generateId\<close> draws, and the \<open>lowStockAlerts\<close> setting.\<close>

record inv_env =
  invNow :: rat
  invNewId :: string
  lowStockAlerts :: bool

text \<open>The \<open>inventory\<close> map keeps its keys in insertion order, which is the order in which
  \<open>findProductByName\<close> tries the records.\<close>

record inventory_manager =
  inventory :: "(string \<times> product) list"
  stockAlerts :: "string \<rightharpoonup> rat"
  lowStockThreshold :: int
  outOfStockThreshold :: int
  autoTrackEnabled :: bool

definition newInventoryManager :: inventory_manager where
  "newInventoryManager =
     \<lparr>inventory = [], stockAlerts = Map.empty, lowStockThreshold = 5, outOfStockThreshold = 0,
      autoTrackEnabled = True\<rparr>"

text \<open>\<open>Map.prototype.set\<close>: an existing key keeps its place.\<close>

fun mapSet :: "string \<Rightarrow> product \<Rightarrow> (string \<times> product) list \<Rightarrow> (string \<times> product) list" where
  "mapSet k v [] = [(k, v)]"
| "mapSet k v ((k', v') # xs) = (if k' = k then (k, v) # xs else (k', v') # mapSet k v xs)"

text \<open>\<open>x || d\<close> on the result of \<open>parseInt\<close> or \<open>parseFloat\<close>.\<close>

definition orElse :: "'a::zero option \<Rightarrow> 'a \<Rightarrow> 'a" where
  "orElse x d = (case x of None \<Rightarrow> d | Some n \<Rightarrow> if n = 0 then d else n)"

definition validateProductData :: "product \<Rightarrow> string list" where
  "validateProductData p =
     (if pName p = [] \<or> trim (pName p) = [] then [''Product name is required''] else [])
     @ (if currentStock p < 0 then [''Current stock cannot be negative''] else [])
     @ (if pPrice p < 0 then [''Price cannot be negative''] else [])
     @ (if minStock p < 0 then [''Minimum stock cannot be negative''] else [])"

definition alertCooldown :: rat where
  "alertCooldown = 30 * 60 * 1000"

text \<open>\<open>checkStockLevel\<close>: the effect on the table of last alerts.\<close>

definition checkStockLevel :: "inv_env \<Rightarrow> inventory_manager \<Rightarrow> product \<Rightarrow> inventory_manager" where
  "checkStockLevel e m p =
     (if \<not> lowStockAlerts e then m
      else if (case stockAlerts m (pId p) of
                 Some lastAlert \<Rightarrow> lastAlert \<noteq> 0 \<and> invNow e - lastAlert < alertCooldown
               | None \<Rightarrow> False) then m
      else if currentStock p \<le> outOfStockThreshold m
        then m\<lparr>stockAlerts := (stockAlerts m)(pId p \<mapsto> invNow e)\<rparr>
      else if currentStock p \<le> (if minStock p \<noteq> 0 then minStock p else lowStockThreshold m)
        then m\<lparr>stockAlerts := (stockAlerts m)(pId p \<mapsto> invNow e)\<rparr>
      else m)"

text \<open>\<open>addProduct\<close>: the stored record, or \<open>None\<close> for the \<open>null\<close> it returns when the
  validation fails or an exception is caught (a name that is truthy and not a string has no
  \<open>trim\<close>).  The lookup result is spread last over the record: an entry of the table sets
  \<open>category\<close>, \<open>emoji\<close> and \<open>color\<close>; the inherited values have no enumerable property
  and set nothing.\<close>

definition addProduct :: "inv_env \<Rightarrow> inventory_manager \<Rightarrow> product_data \<Rightarrow> product option \<times> inventory_manager" where
  "addProduct e m pd =
     (case pdName pd of
        Str nm \<Rightarrow>
          let info = getProductInfo (pdName pd);
              p = \<lparr>pId = (case pdId pd of Some i \<Rightarrow> i | None \<Rightarrow> invNewId e),
                   pName = nm,
                   currentStock = orElse (pdCurrentStock pd) 0,
                   minStock = orElse (pdMinStock pd) (lowStockThreshold m),
                   maxStock = orElse (pdMaxStock pd) 100,
                   pPrice = orElse (pdPrice pd) 0,
                   pCategory = (case info of
                                  Entry v \<Rightarrow> Some (category v)
                                | Inherited \<Rightarrow>
                                    Some (case pdCategory pd of Some c \<Rightarrow> c | None \<Rightarrow> ''other'')),
                   pEmoji = infoEmoji info,
                   pColor = infoColor info,
                   supplier = (case pdSupplier pd of Some s \<Rightarrow> s | None \<Rightarrow> []),
                   lastRestocked = orElse (pdLastRestocked pd) (invNow e),
                   lastUpdated = invNow e,
                   isActive = pdIsActive pd,
                   pTotalSales = orElse (pdTotalSales pd) 0\<rparr>
          in if validateProductData p \<noteq> [] then (None, m)
             else (Some p, checkStockLevel e (m\<lparr>inventory := mapSet (pId p) p (inventory m)\<rparr>) p)
      | _ \<Rightarrow> (None, m))"

text \<open>\<open>updateStock\<close>, called with an integer.\<close>

definition updateStock :: "inv_env \<Rightarrow> inventory_manager \<Rightarrow> string \<Rightarrow> int \<Rightarrow> string \<Rightarrow> product option \<times> inventory_manager" where
  "updateStock e m productId newStock reason =
     (case map_of (inventory m) productId of
        None \<Rightarrow> (None, m)
      | Some p \<Rightarrow>
          let previousStock = currentStock p;
              stockChange = newStock - previousStock;
              p1 = p\<lparr>currentStock := max 0 newStock, lastUpdated := invNow e\<rparr>;
              p2 = (if stockChange > 0 \<and> reason = ''restock''
                    then p1\<lparr>lastRestocked := invNow e\<rparr> else p1)
          in (Some p2, checkStockLevel e (m\<lparr>inventory := mapSet productId p2 (inventory m)\<rparr>) p2))"

text \<open>\<open>findProductByName\<close>: the key and the record of the first exact match, else of the
  first partial match.\<close>

definition findProductByName :: "inventory_manager \<Rightarrow> string \<Rightarrow> (string \<times> product) option" where
  "findProductByName m productName' =
     (let normalizedName = trim (toLowerCase productName') in
      case find (\<lambda>(k, p). trim (toLowerCase (pName p)) = normalizedName) (inventory m) of
        Some kp \<Rightarrow> Some kp
      | None \<Rightarrow>
          find (\<lambda>(k, p). includes_str (toLowerCase (pName p)) normalizedName
                        \<or> includes_str normalizedName (toLowerCase (pName p))) (inventory m))"

text \<open>\<open>handleSaleEvent\<close> on an enriched sale.  The sales counter is incremented on the record
  that was found, in place; the stock goes through \<open>updateStock\<close> under the record's \<open>id\<close>.
  A name that is truthy and not a string has no \<open>toLowerCase\<close>: the handler throws and
  nothing changes.\<close>

definition handleSaleEvent :: "inv_env \<Rightarrow> inventory_manager \<Rightarrow> sale \<Rightarrow> inventory_manager" where
  "handleSaleEvent e m saleData =
     (case productName saleData of
        Str nm \<Rightarrow>
          if nm = [] then m
          else (case findProductByName m nm of
                  Some (k, p) \<Rightarrow>
                    let newStock = max 0 (currentStock p - 1);
                        p' = p\<lparr>pTotalSales := pTotalSales p + 1\<rparr>;
                        m1 = m\<lparr>inventory := mapSet k p' (inventory m)\<rparr>
                    in snd (updateStock e m1 (pId p') newStock ''sale'')
                | None \<Rightarrow>
                    if autoTrackEnabled m then
                      snd (addProduct e m
                             \<lparr>pdId = None, pdName = Str nm, pdCurrentStock = Some 0,
                              pdMinStock = None, pdMaxStock = None,
                              pdPrice = Some (orElse (extractPrice (Num (price saleData))) 0),
                              pdCategory = infoCategory (getProductInfo (Str nm)),
                              pdSupplier = None, pdLastRestocked = None, pdIsActive = True,
                              pdTotalSales = None\<rparr>)
                    else m)
      | _ \<Rightarrow> m)"

text \<open>A sequence of sale events and stock updates.\<close>

datatype inv_op = SaleEvent inv_env sale | UpdateStock inv_env string int string

fun applyOp :: "inventory_manager \<Rightarrow> inv_op \<Rightarrow> inventory_manager" where
  "applyOp m (SaleEvent e s) = handleSaleEvent e m s"
| "applyOp m (UpdateStock e i n r) = snd (updateStock e m i n r)"

definition applyOps :: "inventory_manager \<Rightarrow> inv_op list \<Rightarrow> inventory_manager" where
  "applyOps m ops = foldl applyOp m ops"

definition stocksNonNegative :: "inventory_manager \<Rightarrow> bool" where
  "stocksNonNegative m = list_all (\<lambda>(k, p). 0 \<le> currentStock p) (inventory m)"

section \<open>WebSocket manager\<close>

datatype conn_state = CONNECTING | CONNECTED | DISCONNECTED | RECONNECTING

datatype ready_state = WS_CONNECTING | WS_OPEN | WS_CLOSING | WS_CLOSED

text \<open>The events the manager dispatches; a state change carries the new and the previous
  state, a message the decoded data and the receipt time.\<close>

datatype ws_event =
    StateChange conn_state conn_state
  | ConnectedEvent
  | MessageEvent payload rat
  | ErrorEvent
  | CloseEvent
  | MaxReconnectAttemptsReached

text \<open>The fields of the manager, then what the host holds for it.  \<open>ws\<close> is the ready state
  of the socket, \<open>None\<close> for \<open>null\<close>.  A timer field is true while the timer is pending.
  \<open>handleReconnect\<close> keeps no handle of the timer it starts: \<open>reconnectTimers\<close> lists the
  delays of those still pending in the host, and \<open>scheduledDelays\<close> every delay computed so
  far (the source logs each one).  \<open>sentMessages\<close> are the frames given to the socket and
  \<open>dispatched\<close> the events dispatched, oldest first.\<close>

record ws_manager =
  ws :: "ready_state option"
  connectionState :: conn_state
  reconnectAttempts :: nat
  maxReconnectAttempts :: nat
  reconnectDelay :: rat
  heartbeatInterval :: bool
  heartbeatTimer :: bool
  connectionTimeout :: bool
  messageQueue :: "payload list"
  isManualClose :: bool
  reconnectTimers :: "rat list"
  scheduledDelays :: "rat list"
  sentMessages :: "payload list"
  dispatched :: "ws_event list"

definition newWebSocketManager :: ws_manager where
  "newWebSocketManager =
     \<lparr>ws = None, connectionState = DISCONNECTED, reconnectAttempts = 0,
      maxReconnectAttempts = MAX_RECONNECT_ATTEMPTS, reconnectDelay = RECONNECT_DELAY,
      heartbeatInterval = False, heartbeatTimer = False, connectionTimeout = False,
      messageQueue = [], isManualClose = False, reconnectTimers = [], scheduledDelays = [],
      sentMessages = [], dispatched = []\<rparr>"

definition dispatchEvent :: "ws_event \<Rightarrow> ws_manager \<Rightarrow> ws_manager" where
  "dispatchEvent ev m = m\<lparr>dispatched := dispatched m @ [ev]\<rparr>"

definition setConnectionState :: "conn_state \<Rightarrow> ws_manager \<Rightarrow> ws_manager" where
  "setConnectionState s m =
     (if connectionState m \<noteq> s
      then dispatchEvent (StateChange s (connectionState m)) (m\<lparr>connectionState := s\<rparr>)
      else m)"

definition stopHeartbeat :: "ws_manager \<Rightarrow> ws_manager" where
  "stopHeartbeat m = m\<lparr>heartbeatInterval := False, heartbeatTimer := False\<rparr>"

text \<open>\<open>CONFIG.WEBSOCKET.HEARTBEAT_INTERVAL\<close> is 30000, so the interval is always started.\<close>

definition startHeartbeat :: "ws_manager \<Rightarrow> ws_manager" where
  "startHeartbeat m = (stopHeartbeat m)\<lparr>heartbeatInterval := True\<rparr>"

text \<open>The delay computed by \<open>handleReconnect\<close> for an attempt, \<open>r\<close> being the value drawn
  from \<open>Math.random()\<close>.\<close>

definition backoffDelay :: "rat \<Rightarrow> nat \<Rightarrow> rat \<Rightarrow> rat" where
  "backoffDelay base attempt r = min (base * 2 ^ (attempt - 1) + r * 1000) 30000"

definition handleReconnect :: "rat \<Rightarrow> ws_manager \<Rightarrow> ws_manager" where
  "handleReconnect r m =
     (if isManualClose m then m
      else if reconnectAttempts m \<ge> maxReconnectAttempts m then
        dispatchEvent MaxReconnectAttemptsReached (setConnectionState DISCONNECTED m)
      else
        let m1 = m\<lparr>reconnectAttempts := reconnectAttempts m + 1\<rparr>;
            m2 = setConnectionState RECONNECTING m1;
            delay = backoffDelay (reconnectDelay m2) (reconnectAttempts m2) r
        in m2\<lparr>reconnectTimers := reconnectTimers m2 @ [delay],
               scheduledDelays := scheduledDelays m2 @ [delay]\<rparr>)"

text \<open>\<open>connect\<close>; \<open>socketThrows\<close> says that \<open>new WebSocket(url)\<close> throws, in which case
  the handler goes to \<open>handleReconnect\<close>.\<close>

definition connect :: "bool \<Rightarrow> rat \<Rightarrow> ws_manager \<Rightarrow> ws_manager" where
  "connect socketThrows r m =
     (if ws m = Some WS_CONNECTING \<or> ws m = Some WS_OPEN then m
      else
        let m1 = setConnectionState CONNECTING (m\<lparr>isManualClose := False\<rparr>)
        in if socketThrows then handleReconnect r m1
           else m1\<lparr>ws := Some WS_CONNECTING, connectionTimeout := True\<rparr>)"

definition disconnect :: "ws_manager \<Rightarrow> ws_manager" where
  "disconnect m =
     (let m1 = stopHeartbeat (m\<lparr>isManualClose := True\<rparr>);
          m2 = m1\<lparr>connectionTimeout := False\<rparr>;
          m3 = m2\<lparr>ws := None\<rparr>
      in setConnectionState DISCONNECTED m3)"

text \<open>\<open>send\<close>: the returned flag and the new state.\<close>

definition send :: "payload \<Rightarrow> ws_manager \<Rightarrow> bool \<times> ws_manager" where
  "send d m =
     (if ws m = Some WS_OPEN then (True, m\<lparr>sentMessages := sentMessages m @ [d]\<rparr>)
      else (False, m\<lparr>messageQueue := messageQueue m @ [d]\<rparr>))"

text \<open>\<open>onOpen\<close>; the host has set the ready state to open.  The queue is flushed in order.\<close>

definition onOpen :: "ws_manager \<Rightarrow> ws_manager" where
  "onOpen m =
     (let m1 = m\<lparr>ws := Some WS_OPEN, connectionTimeout := False\<rparr>;
          m2 = setConnectionState CONNECTED m1;
          m3 = startHeartbeat (m2\<lparr>reconnectAttempts := 0\<rparr>);
          m4 = m3\<lparr>sentMessages := sentMessages m3 @ messageQueue m3, messageQueue := []\<rparr>
      in dispatchEvent ConnectedEvent m4)"

text \<open>\<open>onMessage\<close> on the decoded data: the value \<open>JSON.parse\<close> returns for the frame, or the
  text of the frame as a string when it is not JSON.\<close>

definition onMessage :: "host \<Rightarrow> rat \<Rightarrow> payload \<Rightarrow> ws_manager \<Rightarrow> ws_manager" where
  "onMessage h t d m =
     (if truthyPayload d \<and> typeofObject d \<and> truthy (getProp d ''productName'')
         \<and> validateSaleData h d \<noteq> []
      then m
      else dispatchEvent (MessageEvent d t) m)"

text \<open>\<open>onClose\<close>; the host has set the ready state of the socket to closed.\<close>

definition onClose :: "rat \<Rightarrow> ws_manager \<Rightarrow> ws_manager" where
  "onClose r m =
     (let m1 = stopHeartbeat (m\<lparr>ws := map_option (\<lambda>s. WS_CLOSED) (ws m)\<rparr>);
          m2 = m1\<lparr>connectionTimeout := False\<rparr>;
          m3 = dispatchEvent CloseEvent m2
      in if \<not> isManualClose m3 then handleReconnect r m3 else m3)"

text \<open>The callback of the oldest pending reconnection timer.\<close>

definition reconnectTimerFires :: "bool \<Rightarrow> rat \<Rightarrow> ws_manager \<Rightarrow> ws_manager" where
  "reconnectTimerFires socketThrows r m =
     (case reconnectTimers m of
        [] \<Rightarrow> m
      | d # ds \<Rightarrow>
          let m1 = m\<lparr>reconnectTimers := ds\<rparr>
          in if \<not> isManualClose m1 then connect socketThrows r m1 else m1)"

text \<open>The callback of the connection timeout.\<close>

definition connectionTimeoutFires :: "rat \<Rightarrow> ws_manager \<Rightarrow> ws_manager" where
  "connectionTimeoutFires r m =
     (if \<not> connectionTimeout m then m
      else
        let m1 = m\<lparr>connectionTimeout := False\<rparr>
        in if ws m1 = Some WS_CONNECTING
           then handleReconnect r (m1\<lparr>ws := Some WS_CLOSING\<rparr>)
           else m1)"

text \<open>A run of the reconnection policy against a server that stays unreachable: the connection
  closes, \<open>handleReconnect\<close> schedules a timer, the timer fires and \<open>connect\<close> opens a socket,
  which closes again.  The run takes one random draw per closure and ends when no timer was
  scheduled.\<close>

fun failingRun :: "rat list \<Rightarrow> ws_manager \<Rightarrow> ws_manager" where
  "failingRun [] m = m"
| "failingRun (r # rs) m =
     (let m1 = onClose r m
      in if reconnectTimers m1 = [] then m1
         else failingRun rs (reconnectTimerFires False 0 m1))"

text \<open>What the host may deliver after a call of \<open>disconnect\<close> while nobody calls
  \<open>connect\<close>: a pending reconnection timer fires, the close event of the old socket arrives,
  a connection timeout fires.\<close>

datatype host_event = TimerFires bool rat | CloseArrives rat | TimeoutFires rat

fun deliver :: "ws_manager \<Rightarrow> host_event \<Rightarrow> ws_manager" where
  "deliver m (TimerFires b r) = reconnectTimerFires b r m"
| "deliver m (CloseArrives r) = onClose r m"
| "deliver m (TimeoutFires r) = connectionTimeoutFires r m"

definition pendingTimers :: "ws_manager \<Rightarrow> bool" where
  "pendingTimers m =
     (heartbeatInterval m \<or> heartbeatTimer m \<or> connectionTimeout m \<or> reconnectTimers m \<noteq> [])"

text \<open>The manager after a manual disconnect: the flag is set, there is no socket, no timer the
  manager holds a handle of is pending, and the state is \<open>disconnected\<close>.\<close>

definition manuallyClosed :: "ws_manager \<Rightarrow> bool" where
  "manuallyClosed m =
     (isManualClose m \<and> ws m = None \<and> \<not> heartbeatInterval m \<and> \<not> heartbeatTimer m
      \<and> \<not> connectionTimeout m \<and> connectionState m = DISCONNECTED)"

text \<open>How often the manager has signalled that it gave up reconnecting.\<close>

definition gaveUp :: "ws_manager \<Rightarrow> nat" where
  "gaveUp m = count_list (dispatched m) MaxReconnectAttemptsReached"

text \<open>The delays of the \<open>n\<close> attempts after attempt \<open>k\<close>, one random draw each.\<close>

definition attemptDelays :: "rat \<Rightarrow> nat \<Rightarrow> nat \<Rightarrow> rat list \<Rightarrow> rat list" where
  "attemptDelays base k n rs =
     map (\<lambda>(a, r). backoffDelay base a r) (zip [Suc k ..< Suc (k + n)] rs)"

section \<open>Example values\<close>

text \<open>A host whose string parsers accept nothing, an empty store, and the environment and
  clock of a call at a given time.  The clocks are those of a host on UTC in January 1970:
  midnight falls on a multiple of a day, and the calendar month before is 31 days long.\<close>

definition exHost :: host where
  "exHost = \<lparr>dateParse = (\<lambda>s. None), stringToNumber = (\<lambda>s. None)\<rparr>"

definition exStorage :: storage where
  "exStorage = \<lparr>isLocalStorageSupported = True, db = None, localSales = Missing\<rparr>"

definition exEnv :: "rat \<Rightarrow> sale_env" where
  "exEnv t = \<lparr>saleNow = t, saleNewId = ''sale_1'', saleRandom = 1 / 2, idbOk = True,
             lsOk = True, lsRetryOk = True\<rparr>"

definition exClock :: "rat \<Rightarrow> rat \<Rightarrow> clock" where
  "exClock midnight t =
     \<lparr>now = t, todayStart = midnight, weekStart = midnight - 7 * day_ms,
      monthStart = midnight - 31 * day_ms, yesterdayStart = midnight - day_ms\<rparr>"

definition emptyNameSale :: payload where
  "emptyNameSale = Object [(''productName'', Str []), (''price'', Num 1)]"

definition colaSale :: "rat \<Rightarrow> payload" where
  "colaSale t =
     Object [(''productName'', Str ''Cola''), (''price'', Str ''$1.50''), (''timestamp'', Num t)]"

definition exSale :: "string \<Rightarrow> rat \<Rightarrow> rat \<Rightarrow> sale" where
  "exSale nm pr t =
     \<lparr>productName = Str nm, price = pr, timestamp = Num t, saleId = Str ''sale_0'',
      saleCategory = None, saleEmoji = None, saleColor = None\<rparr>"

text \<open>A manager that has served one all-time snapshot of an empty working set, so that its
  cache holds an entry.\<close>

definition exCachedManager :: analytics_manager where
  "exCachedManager =
     snd (getAnalytics exHost (exClock 0 900) (newAnalyticsManager exStorage) P_ALL True)"

text \<open>A sale six hours into day 3, a snapshot of the week taken at noon of day 10, and two later
  calls at 11:00 and 13:00 of day 11.\<close>

definition exSaleTime :: rat where
  "exSaleTime = 3 * day_ms + 6 * 3600000"

definition exSoldManager :: analytics_manager where
  "exSoldManager =
     snd (addSale exHost (exEnv exSaleTime) (newAnalyticsManager exStorage) (colaSale exSaleTime))"

definition exClock0 :: clock where
  "exClock0 = exClock (10 * day_ms) (10 * day_ms + 12 * 3600000)"

definition exClock1 :: clock where
  "exClock1 = exClock (11 * day_ms) (11 * day_ms + 11 * 3600000)"

definition exClock2 :: clock where
  "exClock2 = exClock (11 * day_ms) (11 * day_ms + 13 * 3600000)"

definition exWeekCached :: analytics_manager where
  "exWeekCached = snd (getAnalytics exHost exClock0 exSoldManager P_WEEK True)"

text \<open>An inventory that tracks one product with one unit in stock, and a sale of a cola.\<close>

definition exProduct :: product where
  "exProduct =
     \<lparr>pId = ''p1'', pName = ''Cola Classic'', currentStock = 1, minStock = 5, maxStock = 100,
      pPrice = 3 / 2, pCategory = Some ''beverages'', pEmoji = Some ''U+1F964'',
      pColor = Some ''#45b7d1'', supplier = [], lastRestocked = 0, lastUpdated = 0,
      isActive = True, pTotalSales = 0\<rparr>"

definition exInventory :: inventory_manager where
  "exInventory = newInventoryManager\<lparr>inventory := [(''p1'', exProduct)]\<rparr>"

definition exInvEnv :: "rat \<Rightarrow> inv_env" where
  "exInvEnv t = \<lparr>invNow = t, invNewId = ''product_1'', lowStockAlerts = True\<rparr>"

definition exSoldOutProduct :: "rat \<Rightarrow> int \<Rightarrow> product" where
  "exSoldOutProduct t n =
     \<lparr>pId = ''p1'', pName = ''Cola Classic'', currentStock = 0, minStock = 5, maxStock = 100,
      pPrice = 3 / 2, pCategory = Some ''beverages'', pEmoji = Some ''U+1F964'',
      pColor = Some ''#45b7d1'', supplier = [], lastRestocked = 0, lastUpdated = t,
      isActive = True, pTotalSales = n\<rparr>"

definition exSoldOut :: "rat \<Rightarrow> int \<Rightarrow> inventory_manager" where
  "exSoldOut t n =
     \<lparr>inventory = [(''p1'', exSoldOutProduct t n)], stockAlerts = [''p1'' \<mapsto> 1000],
      lowStockThreshold = 5, outOfStockThreshold = 0, autoTrackEnabled = True\<rparr>"

definition exOps :: "inv_op list" where
  "exOps = [SaleEvent (exInvEnv 1000) (exSale ''cola'' (3 / 2) 1000),
            SaleEvent (exInvEnv 2000) (exSale ''cola'' (3 / 2) 2000),
            UpdateStock (exInvEnv 3000) ''p1'' (- 5) ''manual'']"

text \<open>Product data for a product named \<open>constructor\<close> that the caller puts in the category
  \<open>snacks\<close>, and for a candy bar that the caller puts in the category \<open>food\<close>.\<close>

definition exProductData :: "string \<Rightarrow> string \<Rightarrow> product_data" where
  "exProductData nm cat =
     \<lparr>pdId = Some ''p9'', pdName = Str nm, pdCurrentStock = Some 3, pdMinStock = None,
      pdMaxStock = None, pdPrice = Some 2, pdCategory = Some cat, pdSupplier = None,
      pdLastRestocked = None, pdIsActive = True, pdTotalSales = None\<rparr>"

text \<open>A payload whose product name has a character outside the allowed set, and a manager
  whose first connection has closed, so that a reconnection is scheduled.\<close>

definition badNameSale :: payload where
  "badNameSale = Object [(''productName'', Str ''Bad!Name''), (''price'', Num 1)]"

definition exReconnecting :: ws_manager where
  "exReconnecting = onClose (1 / 2) (connect False 0 newWebSocketManager)"

text \<open>A connected manager with the default configuration, and one configured with a base
  delay of 100 ms.\<close>

definition exConnected :: ws_manager where
  "exConnected = onOpen (connect False 0 newWebSocketManager)"

definition exConnected100 :: ws_manager where
  "exConnected100 = onOpen (connect False 0 (newWebSocketManager\<lparr>reconnectDelay := 100\<rparr>))"

section \<open>Evaluation lemmas\<close>

lemma validate_emptyNameSale: "validateSaleData exHost emptyNameSale \<noteq> []"
  by (simp add: validateSaleData_def emptyNameSale_def)

lemma validate_colaSale: "\<bar>t\<bar> \<le> 8640000000000000 \<Longrightarrow> validateSaleData h (colaSale t) = []"
  by (simp add: validateSaleData_def colaSale_def PRODUCT_NAME_test_def nameChar_def
      isAlpha_def isDigit_def isSpace_def PRICE_match_def parseFloatDigits_def digitsVal_def
      digitVal_def)

lemma enrich_colaSale:
  "t \<noteq> 0 \<Longrightarrow> enrichSaleData (exEnv t') (colaSale t) =
     \<lparr>productName = Str ''Cola'', price = 3 / 2, timestamp = Num t, saleId = Str ''sale_1'',
      saleCategory = Some ''beverages'', saleEmoji = Some ''U+1F964'',
      saleColor = Some ''#45b7d1''\<rparr>"
  by (simp add: enrichSaleData_def colaSale_def PRICE_match_def parseFloatDigits_def
      digitsVal_def digitVal_def isDigit_def exEnv_def trim_def toLowerCase_def toLowerChar_def
      isSpace_def PRODUCT_MAPPING_def inheritedKey_def)

lemma storage_addSale_exStorage:
  "storage_addSale (exEnv t) exStorage s =
     Some (True, exStorage\<lparr>localSales := Stored [s\<lparr>saleId := Num (t + 1 / 2),
        timestamp := (if truthy (timestamp s) then timestamp s else Num t)\<rparr>]\<rparr>)"
  by (simp add: storage_addSale_def exStorage_def exEnv_def getItemSales_def setItemSales_def
      MAX_FEED_ITEMS_def Let_def)

section \<open>Percentage change (claim C9)\<close>

text \<open>C9.  The percent change of a current against a previous value is exactly 100 when the
  previous value is zero and the current one is positive, exactly 0 when the previous value is
  zero and the current one is not positive, and \<open>((current - previous) / previous) * 100\<close>
  when the previous value is not zero; every change reported in the comparison block of a
  snapshot (sales, revenue, average purchase) is this function of the block's own current and
  previous values.\<close>

theorem percentage_change_of_comparison:
  "calculatePercentageChange cur prev =
     (if prev = 0 then (if cur > 0 then 100 else 0) else ((cur - prev) / prev) * 100)
   \<and> (case getComparisonToPrevious h c data p of
        None \<Rightarrow> True
      | Some cmp \<Rightarrow>
          list_all (\<lambda>m. change m = (if previous m = 0 then (if current m > 0 then 100 else 0)
                                     else ((current m - previous m) / previous m) * 100))
            [cmpSales cmp, cmpRevenue cmp, cmpAveragePurchase cmp])"
  by (auto simp: getComparisonToPrevious_def Let_def mkMetric_def calculatePercentageChange_def
      split: prod.splits option.splits)

text \<open>The rule at a previous value of zero (a positive, a zero and a negative current value), at
  a previous value that is not zero, and on two sales a week apart.\<close>

theorem percentage_change_of_comparison_witness:
  "calculatePercentageChange 5 0 = 100 \<and> calculatePercentageChange 0 0 = 0
   \<and> calculatePercentageChange (- 1) 0 = 0 \<and> calculatePercentageChange 150 100 = 50
   \<and> getComparisonToPrevious exHost (exClock (20 * day_ms) (20 * day_ms + 1000))
        [exSale ''Cola'' 2 (15 * day_ms), exSale ''Cola'' 1 (10 * day_ms)] P_WEEK
      = Some \<lparr>cmpSales = \<lparr>current = 1, previous = 1, change = 0\<rparr>,
              cmpRevenue = \<lparr>current = 2, previous = 1, change = 100\<rparr>,
              cmpAveragePurchase = \<lparr>current = 2, previous = 1, change = 100\<rparr>\<rparr>"
  using percentage_change_of_comparison [of 5 0 exHost "exClock (20 * day_ms) (20 * day_ms + 1000)"
      "[exSale ''Cola'' 2 (15 * day_ms), exSale ''Cola'' 1 (10 * day_ms)]" P_WEEK]
    percentage_change_of_comparison [of 0 0 exHost "exClock 0 0" "[]" P_ALL]
    percentage_change_of_comparison [of "- 1" 0 exHost "exClock 0 0" "[]" P_ALL]
    percentage_change_of_comparison [of 150 100 exHost "exClock 0 0" "[]" P_ALL]
  by (simp add: getComparisonToPrevious_def getPreviousPeriodData_def filterByTimePeriod_def
      inRange_def calculateBasicStats_def mkMetric_def exSale_def exClock_def day_ms_def Let_def
      calculatePercentageChange_def)
lemma getAnalytics_empty_manager:
  "getAnalytics h c (newAnalyticsManager st) P_ALL u =
     (\<lparr>anPeriod = P_ALL, totalSales = 0, totalRevenue = 0, averagePurchase = 0,
       minPurchase = None, maxPurchase = None, medianPurchase = None,
       comparisonToPrevious = None\<rparr>,
      (newAnalyticsManager st)\<lparr>cache := [P_ALL \<mapsto>
        \<lparr>entryData = \<lparr>anPeriod = P_ALL, totalSales = 0, totalRevenue = 0, averagePurchase = 0,
           minPurchase = None, maxPurchase = None, medianPurchase = None,
           comparisonToPrevious = None\<rparr>, entryTimestamp = now c\<rparr>]\<rparr>)"
  by (simp add: getAnalytics_def newAnalyticsManager_def computeAndCache_def
      filterByTimePeriod_def calculateAnalytics_def Let_def)

lemma exCachedManager_eq:
  "exCachedManager =
     \<lparr>salesData = [],
      cache = [P_ALL \<mapsto>
        \<lparr>entryData = \<lparr>anPeriod = P_ALL, totalSales = 0, totalRevenue = 0, averagePurchase = 0,
           minPurchase = None, maxPurchase = None, medianPurchase = None,
           comparisonToPrevious = None\<rparr>, entryTimestamp = 900\<rparr>],
      cacheExpiry = CACHE_EXPIRY, store = exStorage\<rparr>"
  unfolding exCachedManager_def getAnalytics_empty_manager
  by (simp add: newAnalyticsManager_def exClock_def)

lemma calculateStats_single:
  "calculateStats [x] =
     \<lparr>stCount = 1, stSum = x, stAverage = x, stMin = x, stMax = x, stMedian = x\<rparr>"
  by (simp add: calculateStats_def)

section \<open>Rejected payloads (claim C6)\<close>

text \<open>C6.  For every raw sale payload that fails validation, \<open>addSale\<close> returns \<open>false\<close> and
  leaves the whole analytics state as it was: the working set, the snapshot cache and the
  persisted event log are unchanged, so a snapshot taken afterwards is the snapshot that would
  have been taken before the call (and reports the prior \<open>totalSales\<close>).\<close>

theorem invalid_sale_changes_nothing:
  assumes "validateSaleData h s \<noteq> []"
  shows "addSale h e m s = (False, m)
    \<and> getAnalytics h c (snd (addSale h e m s)) p u = getAnalytics h c m p u"
  using assms by (simp add: addSale_def)

text \<open>The payload with an empty product name is rejected by a fresh manager, whose all-time
  snapshot still reports no sale.\<close>

theorem invalid_sale_changes_nothing_witness:
  "validateSaleData exHost emptyNameSale \<noteq> []
   \<and> addSale exHost (exEnv 1000) (newAnalyticsManager exStorage) emptyNameSale
       = (False, newAnalyticsManager exStorage)
   \<and> totalSales (fst (getAnalytics exHost (exClock 0 2000)
        (snd (addSale exHost (exEnv 1000) (newAnalyticsManager exStorage) emptyNameSale))
        P_ALL True)) = 0"
  using invalid_sale_changes_nothing [OF validate_emptyNameSale, of "exEnv 1000"
      "newAnalyticsManager exStorage" "exClock 0 2000" P_ALL True]
    validate_emptyNameSale
  by (simp add: getAnalytics_empty_manager)

section \<open>Cache invalidation (claim C2)\<close>

text \<open>C2.  Every successful \<open>addSale\<close> call clears every cached snapshot entry, for all
  periods at once, so a \<open>getAnalytics\<close> call for any period that follows it recomputes the
  snapshot from the working set (which now starts with the new sale) and does not return an
  entry cached earlier.\<close>

theorem successful_addSale_clears_cache:
  assumes "addSale h e m s = (True, m')"
  shows "cache m' = Map.empty
    \<and> getAnalytics h c m' p useCache = computeAndCache h c m' p
    \<and> salesData m' = enrichSaleData e s # salesData m"
  using assms
  by (auto simp: addSale_def getAnalytics_def invalidateCache_def Let_def
      split: if_splits option.splits prod.splits)

lemma addSale_exCachedManager:
  "addSale exHost (exEnv 1000) exCachedManager (colaSale 500) =
     (True, snd (addSale exHost (exEnv 1000) exCachedManager (colaSale 500)))"
  by (simp add: addSale_def validate_colaSale exCachedManager_eq storage_addSale_exStorage
      Let_def)

text \<open>A manager whose cache holds an all-time snapshot counting no sale ingests one sale; the
  cache is empty afterwards and the next all-time snapshot counts the sale.\<close>

theorem successful_addSale_clears_cache_witness:
  "cache exCachedManager P_ALL \<noteq> None
   \<and> fst (addSale exHost (exEnv 1000) exCachedManager (colaSale 500)) = True
   \<and> cache (snd (addSale exHost (exEnv 1000) exCachedManager (colaSale 500))) = Map.empty
   \<and> totalSales (fst (getAnalytics exHost (exClock 0 2000)
        (snd (addSale exHost (exEnv 1000) exCachedManager (colaSale 500))) P_ALL True)) = 1"
proof -
  have c: "cache exCachedManager P_ALL \<noteq> None"
    by (simp add: exCachedManager_eq)
  have s0: "salesData exCachedManager = []"
    by (simp add: exCachedManager_eq)
  note t = successful_addSale_clears_cache [OF addSale_exCachedManager,
      where c = "exClock 0 2000" and p = P_ALL and useCache = True]
  have f: "fst (addSale exHost (exEnv 1000) exCachedManager (colaSale 500)) = True"
    using addSale_exCachedManager by (metis fst_conv)
  have n: "totalSales (fst (computeAndCache exHost (exClock 0 2000)
        (snd (addSale exHost (exEnv 1000) exCachedManager (colaSale 500))) P_ALL)) = 1"
    using t by (simp add: computeAndCache_def filterByTimePeriod_def calculateAnalytics_def
        Let_def s0 enrich_colaSale inRange_def exClock_def)
  from t c f n show ?thesis by simp
qed
section \<open>Reuse of a cached snapshot (claim C3)\<close>

lemma exSoldManager_eq:
  "exSoldManager =
     \<lparr>salesData = [\<lparr>productName = Str ''Cola'', price = 3 / 2, timestamp = Num exSaleTime,
        saleId = Str ''sale_1'', saleCategory = Some ''beverages'',
        saleEmoji = Some ''U+1F964'', saleColor = Some ''#45b7d1''\<rparr>],
      cache = Map.empty, cacheExpiry = CACHE_EXPIRY,
      store = exStorage\<lparr>localSales := Stored
        [\<lparr>productName = Str ''Cola'', price = 3 / 2, timestamp = Num exSaleTime,
          saleId = Num (exSaleTime + 1 / 2), saleCategory = Some ''beverages'',
          saleEmoji = Some ''U+1F964'', saleColor = Some ''#45b7d1''\<rparr>]\<rparr>\<rparr>"
proof -
  have t: "exSaleTime \<noteq> 0" "\<bar>exSaleTime\<bar> \<le> 8640000000000000"
    by (simp_all add: exSaleTime_def day_ms_def)
  show ?thesis
    unfolding exSoldManager_def
    by (simp add: addSale_def validate_colaSale t enrich_colaSale newAnalyticsManager_def
        storage_addSale_exStorage invalidateCache_def Let_def)
qed

lemma week_snapshot_at_clock0:
  "totalSales (fst (computeAndCache exHost exClock0 exSoldManager P_WEEK)) = 1"
  by (simp add: computeAndCache_def exSoldManager_eq filterByTimePeriod_def inRange_def
      calculateAnalytics_def exClock0_def exClock_def exSaleTime_def day_ms_def Let_def)

lemma week_snapshot_at_clock2:
  "totalSales (fst (computeAndCache exHost exClock2 (exSoldManager\<lparr>cache := k\<rparr>) P_WEEK)) = 0"
  by (simp add: computeAndCache_def exSoldManager_eq filterByTimePeriod_def inRange_def
      calculateAnalytics_def exClock2_def exClock_def exSaleTime_def day_ms_def Let_def)

lemma exWeekCached_eq:
  "exWeekCached = exSoldManager\<lparr>cache := [P_WEEK \<mapsto>
     \<lparr>entryData = fst (computeAndCache exHost exClock0 exSoldManager P_WEEK),
      entryTimestamp = now exClock0\<rparr>]\<rparr>"
  by (simp add: exWeekCached_def getAnalytics_def computeAndCache_def Let_def exSoldManager_eq)

lemma call_at_clock1:
  "getAnalytics exHost exClock1 exWeekCached P_WEEK True =
     (fst (computeAndCache exHost exClock0 exSoldManager P_WEEK), exWeekCached)"
  by (simp add: getAnalytics_def exWeekCached_eq exSoldManager_eq exClock0_def exClock1_def
      exClock_def CACHE_EXPIRY_def day_ms_def)

lemma call_at_clock2:
  "getAnalytics exHost exClock2 exWeekCached P_WEEK True =
     computeAndCache exHost exClock2 exWeekCached P_WEEK"
  by (simp add: getAnalytics_def exWeekCached_eq exSoldManager_eq exClock0_def exClock2_def
      exClock_def CACHE_EXPIRY_def day_ms_def)

text \<open>C3, as stated, fails.  The week's snapshot is cached at noon of day 10 and counts one
  sale.  A call at 11:00 of day 11 is served from the cache; a second call two hours later, with
  no sale in between and well within 24 hours of the first call, finds the entry 25 hours old,
  recomputes, and returns a snapshot that counts no sale.\<close>

theorem second_call_recomputes_counterexample:
  "now exClock2 - now exClock1 < CACHE_EXPIRY
   \<and> now exClock1 \<le> now exClock2
   \<and> totalSales (fst (getAnalytics exHost exClock1 exWeekCached P_WEEK True)) = 1
   \<and> totalSales (fst (getAnalytics exHost exClock2
        (snd (getAnalytics exHost exClock1 exWeekCached P_WEEK True)) P_WEEK True)) = 0"
proof -
  have a: "now exClock2 - now exClock1 < CACHE_EXPIRY" "now exClock1 \<le> now exClock2"
    by (simp_all add: exClock1_def exClock2_def exClock_def CACHE_EXPIRY_def day_ms_def)
  have b: "totalSales (fst (computeAndCache exHost exClock2 exWeekCached P_WEEK)) = 0"
    unfolding exWeekCached_eq by (rule week_snapshot_at_clock2)
  from a b show ?thesis
    by (simp add: call_at_clock1 call_at_clock2 week_snapshot_at_clock0)
qed

text \<open>C3, amended.  For every period, when \<open>getAnalytics(period)\<close> is called twice with
  \<open>useCache = true\<close> and no \<open>addSale\<close> in between, and the second call is made less than the
  cache expiry (24 hours) after the time stamp of the cache entry that the first call leaves,
  the second call returns the identical snapshot and changes nothing (it does not recompute).
  That time stamp is the time of the first call when the first call computed the snapshot, and
  the time stamp of the entry already in the cache when the first call was served from it.\<close>

theorem cached_snapshot_returned_again:
  assumes "getAnalytics h c1 m p True = (a1, m1)"
    and "cache m1 p = Some en"
    and "now c2 - entryTimestamp en < cacheExpiry m1"
  shows "getAnalytics h c2 m1 p True = (a1, m1)
    \<and> (entryTimestamp en = now c1 \<or> cache m p = Some en)"
  using assms
  by (auto simp: getAnalytics_def computeAndCache_def Let_def
      split: option.splits if_splits)

text \<open>A first call at noon of day 10 computes the week's snapshot; a call 23 hours later
  returns it from the cache.\<close>

theorem cached_snapshot_returned_again_witness:
  "getAnalytics exHost exClock0 exSoldManager P_WEEK True
     = (fst (computeAndCache exHost exClock0 exSoldManager P_WEEK), exWeekCached)
   \<and> cache exWeekCached P_WEEK
     = Some \<lparr>entryData = fst (computeAndCache exHost exClock0 exSoldManager P_WEEK),
             entryTimestamp = now exClock0\<rparr>
   \<and> now exClock1 - now exClock0 < cacheExpiry exWeekCached
   \<and> getAnalytics exHost exClock1 exWeekCached P_WEEK True
     = (fst (computeAndCache exHost exClock0 exSoldManager P_WEEK), exWeekCached)"
proof -
  have 1: "getAnalytics exHost exClock0 exSoldManager P_WEEK True
     = (fst (computeAndCache exHost exClock0 exSoldManager P_WEEK), exWeekCached)"
    by (simp add: exWeekCached_eq) (simp add: getAnalytics_def computeAndCache_def Let_def exSoldManager_eq)
  have 2: "cache exWeekCached P_WEEK
     = Some \<lparr>entryData = fst (computeAndCache exHost exClock0 exSoldManager P_WEEK),
             entryTimestamp = now exClock0\<rparr>"
    by (simp add: exWeekCached_eq)
  have 3: "now exClock1 - entryTimestamp \<lparr>entryData = fst (computeAndCache exHost exClock0 exSoldManager P_WEEK),
             entryTimestamp = now exClock0\<rparr> < cacheExpiry exWeekCached"
    by (simp add: exWeekCached_eq exSoldManager_eq exClock0_def exClock1_def exClock_def
        CACHE_EXPIRY_def day_ms_def)
  from cached_snapshot_returned_again [OF 1 2 3] 1 2 3 show ?thesis by simp
qed
section \<open>All-time totals (claim C1)\<close>

lemma foldl_plus_sum_list: "foldl (\<lambda>acc val. acc + val) a xs = a + sum_list (xs :: rat list)"
  by (induction xs arbitrary: a) simp_all

lemma calculateStats_sum: "stSum (calculateStats xs) = sum_list xs"
  by (simp add: calculateStats_def Let_def foldl_plus_sum_list)

lemma calculateAnalytics_totals:
  "totalSales (calculateAnalytics h c m data p) = length data
   \<and> totalRevenue (calculateAnalytics h c m data p) = sum_list (map price data)"
  by (simp add: calculateAnalytics_def Let_def calculateStats_sum)

lemma addSale_keeps_empty_cache:
  "cache m = Map.empty \<Longrightarrow> cache (snd (addSale h e m s)) = Map.empty"
  by (simp add: addSale_def invalidateCache_def Let_def split: option.splits prod.splits)

lemma addSales_keeps_empty_cache:
  "cache m = Map.empty \<Longrightarrow> cache (addSales h m es) = Map.empty"
  by (induction es arbitrary: m) (auto simp: addSale_keeps_empty_cache)

lemma addSale_valid_salesData:
  "validateSaleData h s = [] \<Longrightarrow>
     salesData (snd (addSale h e m s)) = enrichSaleData e s # salesData m"
  by (simp add: addSale_def invalidateCache_def Let_def split: option.splits prod.splits)

lemma addSales_salesData:
  "list_all (\<lambda>(e, s). validateSaleData h s = []) es \<Longrightarrow>
     salesData (addSales h m es) = rev (map (\<lambda>(e, s). enrichSaleData e s) es) @ salesData m"
  by (induction es arbitrary: m) (auto simp: addSale_valid_salesData)

lemma getAnalytics_empty_cache:
  "cache m = Map.empty \<Longrightarrow> getAnalytics h c m p u = computeAndCache h c m p"
  by (simp add: getAnalytics_def)

text \<open>C1, as stated, fails.  A sale stamped one millisecond before the epoch passes the
  validation, lies in the past and is ingested (\<open>addSale\<close> returns \<open>true\<close>), yet the all-time
  snapshot, whose window starts at 0, counts no sale.\<close>

theorem sale_before_epoch_counterexample:
  "validateSaleData exHost (colaSale (- 1)) = []
   \<and> fst (addSale exHost (exEnv 1000) (newAnalyticsManager exStorage) (colaSale (- 1))) = True
   \<and> timestamp (enrichSaleData (exEnv 1000) (colaSale (- 1))) = Num (- 1)
   \<and> - 1 \<le> now (exClock 0 2000)
   \<and> totalSales (fst (getAnalytics exHost (exClock 0 2000)
        (addSales exHost (newAnalyticsManager exStorage) [(exEnv 1000, colaSale (- 1))])
        P_ALL True)) = 0"
proof -
  have v: "validateSaleData exHost (colaSale (- 1)) = []"
    by (simp add: validate_colaSale)
  have e: "enrichSaleData (exEnv 1000) (colaSale (- 1)) =
     \<lparr>productName = Str ''Cola'', price = 3 / 2, timestamp = Num (- 1), saleId = Str ''sale_1'',
      saleCategory = Some ''beverages'', saleEmoji = Some ''U+1F964'',
      saleColor = Some ''#45b7d1''\<rparr>"
    by (simp add: enrich_colaSale)
  have a: "addSale exHost (exEnv 1000) (newAnalyticsManager exStorage) (colaSale (- 1)) =
     (True, \<lparr>salesData = [enrichSaleData (exEnv 1000) (colaSale (- 1))], cache = Map.empty,
        cacheExpiry = CACHE_EXPIRY,
        store = exStorage\<lparr>localSales := Stored [(enrichSaleData (exEnv 1000) (colaSale (- 1)))
          \<lparr>saleId := Num (1000 + 1 / 2)\<rparr>]\<rparr>\<rparr>)"
    by (simp add: addSale_def v newAnalyticsManager_def storage_addSale_exStorage
        invalidateCache_def Let_def) (simp add: e)
  show ?thesis
    by (simp add: v a) (simp add: e getAnalytics_def computeAndCache_def filterByTimePeriod_def
        inRange_def calculateAnalytics_def exClock_def Let_def)
qed

text \<open>C1, amended.  For every sequence of n valid sale events ingested in order by \<open>addSale\<close>
  into a new manager, each with a time stamp (the payload's own when it is truthy, the time of
  ingestion otherwise) that is a number from 0 up to the time of the query, \<open>getAnalytics('all')\<close>
  returns a snapshot whose \<open>totalSales\<close> is n and whose \<open>totalRevenue\<close> is the sum of the
  enriched prices of the n events.\<close>

theorem all_time_snapshot_counts_every_sale:
  assumes "list_all (\<lambda>(e, s). validateSaleData h s = []
             \<and> inRange h 0 (now c) (timestamp (enrichSaleData e s))) es"
  shows "totalSales (fst (getAnalytics h c (addSales h (newAnalyticsManager st) es) P_ALL u))
       = length es
    \<and> totalRevenue (fst (getAnalytics h c (addSales h (newAnalyticsManager st) es) P_ALL u))
       = sum_list (map (\<lambda>(e, s). price (enrichSaleData e s)) es)"
proof -
  let ?m = "addSales h (newAnalyticsManager st) es"
  let ?enr = "map (\<lambda>(e, s). enrichSaleData e s) es"
  have valid: "list_all (\<lambda>(e, s). validateSaleData h s = []) es"
    using assms by (auto simp: list_all_iff)
  have sd: "salesData ?m = rev ?enr"
    using addSales_salesData [OF valid, of "newAnalyticsManager st"]
    by (simp add: newAnalyticsManager_def)
  have ce: "cache ?m = Map.empty"
    by (rule addSales_keeps_empty_cache) (simp add: newAnalyticsManager_def)
  have inr: "\<forall>x \<in> set (rev ?enr). inRange h 0 (now c) (timestamp x)"
    using assms by (auto simp: list_all_iff)
  have flt: "filterByTimePeriod h c (salesData ?m) P_ALL = rev ?enr"
    using inr by (simp add: filterByTimePeriod_def sd)
  have ga: "fst (getAnalytics h c ?m P_ALL u) = calculateAnalytics h c ?m (rev ?enr) P_ALL"
    by (simp add: getAnalytics_empty_cache [OF ce] computeAndCache_def Let_def flt)
  have len: "length (rev ?enr) = length es" by simp
  have sm: "sum_list (map price (rev ?enr)) = sum_list (map (\<lambda>(e, s). price (enrichSaleData e s)) es)"
    by (simp add: rev_map [symmetric] sum_list_rev comp_def case_prod_unfold)
  show ?thesis
    unfolding ga using calculateAnalytics_totals [of h c ?m "rev ?enr" P_ALL] len sm by simp
qed

text \<open>Two sales of 1.50, stamped 500 and 700, queried at 2000: two sales, revenue 3.\<close>

theorem all_time_snapshot_counts_every_sale_witness:
  "list_all (\<lambda>(e, s). validateSaleData exHost s = []
       \<and> inRange exHost 0 (now (exClock 0 2000)) (timestamp (enrichSaleData e s)))
     [(exEnv 1000, colaSale 500), (exEnv 1500, colaSale 700)]
   \<and> totalSales (fst (getAnalytics exHost (exClock 0 2000)
        (addSales exHost (newAnalyticsManager exStorage)
           [(exEnv 1000, colaSale 500), (exEnv 1500, colaSale 700)]) P_ALL True)) = 2
   \<and> totalRevenue (fst (getAnalytics exHost (exClock 0 2000)
        (addSales exHost (newAnalyticsManager exStorage)
           [(exEnv 1000, colaSale 500), (exEnv 1500, colaSale 700)]) P_ALL True)) = 3"
proof -
  have h: "list_all (\<lambda>(e, s). validateSaleData exHost s = []
       \<and> inRange exHost 0 (now (exClock 0 2000)) (timestamp (enrichSaleData e s)))
     [(exEnv 1000, colaSale 500), (exEnv 1500, colaSale 700)]"
    by (simp add: validate_colaSale enrich_colaSale inRange_def exClock_def)
  from all_time_snapshot_counts_every_sale [OF h, of exStorage True] h show ?thesis
    by (simp add: enrich_colaSale)
qed
section \<open>Stock levels (claim C4)\<close>

lemma list_all_mapSet:
  "list_all P xs \<Longrightarrow> P (k, v) \<Longrightarrow> list_all P (mapSet k v xs)"
  by (induction xs) auto

lemma map_of_mapSet_same: "map_of (mapSet k v xs) k = Some v"
  by (induction xs) auto

lemma map_of_in_set: "map_of xs k = Some v \<Longrightarrow> (k, v) \<in> set xs"
  by (rule map_of_SomeD)

lemma inventory_checkStockLevel: "inventory (checkStockLevel e m p) = inventory m"
  by (simp add: checkStockLevel_def)

lemma find_in_set: "find P xs = Some x \<Longrightarrow> x \<in> set xs"
  by (induction xs) (auto split: if_splits)

lemma findProductByName_in_set:
  "findProductByName m nm = Some (k, p) \<Longrightarrow> (k, p) \<in> set (inventory m)"
  by (auto simp: findProductByName_def Let_def split: option.splits dest: find_in_set)

lemma updateStock_nonneg:
  "stocksNonNegative m \<Longrightarrow> stocksNonNegative (snd (updateStock e m i n r))"
  by (auto simp: stocksNonNegative_def updateStock_def Let_def inventory_checkStockLevel
      intro!: list_all_mapSet split: option.splits)

lemma addProduct_nonneg:
  "stocksNonNegative m \<Longrightarrow> stocksNonNegative (snd (addProduct e m pd))"
  by (auto simp: stocksNonNegative_def addProduct_def Let_def inventory_checkStockLevel
      validateProductData_def intro!: list_all_mapSet split: jsval.splits if_splits)

lemma handleSaleEvent_nonneg:
  assumes "stocksNonNegative m"
  shows "stocksNonNegative (handleSaleEvent e m s)"
proof (cases "productName s")
  case (Str nm)
  show ?thesis
  proof (cases "nm = []")
    case True
    with Str assms show ?thesis by (simp add: handleSaleEvent_def)
  next
    case False
    show ?thesis
    proof (cases "findProductByName m nm")
      case None
      with Str False assms show ?thesis
        by (simp add: handleSaleEvent_def addProduct_nonneg)
    next
      case (Some kp)
      obtain k p where kp: "kp = (k, p)" by (cases kp)
      from Some kp have "(k, p) \<in> set (inventory m)"
        by (simp add: findProductByName_in_set)
      with assms have "0 \<le> currentStock p"
        by (auto simp: stocksNonNegative_def list_all_iff)
      with assms have "stocksNonNegative
          (m\<lparr>inventory := mapSet k (p\<lparr>pTotalSales := pTotalSales p + 1\<rparr>) (inventory m)\<rparr>)"
        by (auto simp: stocksNonNegative_def intro!: list_all_mapSet)
      with Str False Some kp show ?thesis
        by (simp add: handleSaleEvent_def Let_def updateStock_nonneg)
    qed
  qed
qed (use assms in \<open>simp_all add: handleSaleEvent_def\<close>)

lemma applyOp_nonneg: "stocksNonNegative m \<Longrightarrow> stocksNonNegative (applyOp m op)"
  by (cases op) (simp_all add: handleSaleEvent_nonneg updateStock_nonneg)

lemma foldl_applyOp_nonneg:
  "stocksNonNegative m \<Longrightarrow> stocksNonNegative (foldl applyOp m ops)"
  by (induction ops arbitrary: m) (simp_all add: applyOp_nonneg)

lemma updateStock_result:
  "updateStock e m i n r = (Some q, m') \<Longrightarrow>
     currentStock q = max 0 n \<and> map_of (inventory m') i = Some q"
  by (auto simp: updateStock_def Let_def inventory_checkStockLevel map_of_mapSet_same
      split: option.splits if_splits)

lemma handleSaleEvent_at_zero:
  assumes "productName s = Str nm" and "nm \<noteq> []"
    and "findProductByName m nm = Some (k, p)" and "pId p = k" and "currentStock p = 0"
  shows "\<exists>p'. map_of (inventory (handleSaleEvent e m s)) k = Some p' \<and> currentStock p' = 0"
  using assms
  by (simp add: handleSaleEvent_def Let_def updateStock_def map_of_mapSet_same
      inventory_checkStockLevel)

text \<open>C4.  Over every sequence of sale events (\<open>handleSaleEvent\<close>) and stock updates
  (\<open>updateStock\<close>), \<open>currentStock\<close> never becomes negative: when no record has a negative
  stock before the sequence, none has after it; \<open>updateStock\<close> stores \<open>max 0\<close> of the value
  it is given, so a value below zero is stored as 0; and a sale that matches a record at stock 0
  leaves that record at stock 0.\<close>

theorem stock_never_negative:
  "(stocksNonNegative m \<longrightarrow> stocksNonNegative (applyOps m ops))
   \<and> (updateStock e m i n r = (Some q, m') \<longrightarrow>
        currentStock q = max 0 n \<and> map_of (inventory m') i = Some q
        \<and> (n < 0 \<longrightarrow> currentStock q = 0))
   \<and> (productName s = Str nm \<and> nm \<noteq> [] \<and> findProductByName m nm = Some (k, p)
        \<and> pId p = k \<and> currentStock p = 0 \<longrightarrow>
        (\<exists>p'. map_of (inventory (handleSaleEvent e m s)) k = Some p' \<and> currentStock p' = 0))"
proof (intro conjI impI)
  assume "stocksNonNegative m"
  then show "stocksNonNegative (applyOps m ops)"
    by (simp add: applyOps_def foldl_applyOp_nonneg)
next
  assume u: "updateStock e m i n r = (Some q, m')"
  from updateStock_result [OF u] show "currentStock q = max 0 n" by simp
  from updateStock_result [OF u] show "map_of (inventory m') i = Some q" by simp
  assume "n < 0"
  with updateStock_result [OF u] show "currentStock q = 0" by simp
next
  assume "productName s = Str nm \<and> nm \<noteq> [] \<and> findProductByName m nm = Some (k, p)
        \<and> pId p = k \<and> currentStock p = 0"
  then show "\<exists>p'. map_of (inventory (handleSaleEvent e m s)) k = Some p' \<and> currentStock p' = 0"
    using handleSaleEvent_at_zero by blast
qed
lemma find_cola_exInventory:
  "findProductByName exInventory ''cola'' = Some (''p1'', exProduct)"
  by (simp add: findProductByName_def exInventory_def newInventoryManager_def exProduct_def
      trim_def toLowerCase_def toLowerChar_def isSpace_def Let_def)

lemma find_cola_exSoldOut:
  "findProductByName (exSoldOut t n) ''cola'' = Some (''p1'', exSoldOutProduct t n)"
  by (simp add: findProductByName_def exSoldOut_def exSoldOutProduct_def
      trim_def toLowerCase_def toLowerChar_def isSpace_def Let_def)

lemma sale_exInventory:
  "handleSaleEvent (exInvEnv 1000) exInventory (exSale ''cola'' pr t) = exSoldOut 1000 1"
  by (simp add: handleSaleEvent_def find_cola_exInventory exSale_def Let_def updateStock_def
      checkStockLevel_def)
    (simp add: exInventory_def newInventoryManager_def exProduct_def exInvEnv_def exSoldOut_def
      exSoldOutProduct_def Let_def checkStockLevel_def alertCooldown_def)

lemma sale_exSoldOut:
  "handleSaleEvent (exInvEnv 2000) (exSoldOut 1000 1) (exSale ''cola'' pr t) = exSoldOut 2000 2"
  by (simp add: handleSaleEvent_def find_cola_exSoldOut exSale_def Let_def updateStock_def
      checkStockLevel_def)
    (simp add: exInvEnv_def exSoldOut_def exSoldOutProduct_def alertCooldown_def Let_def
      checkStockLevel_def)

lemma update_exSoldOut:
  "updateStock (exInvEnv 3000) (exSoldOut 2000 2) ''p1'' (- 5) ''manual''
     = (Some (exSoldOutProduct 3000 2), exSoldOut 3000 2)"
  by (simp add: updateStock_def Let_def checkStockLevel_def exInvEnv_def exSoldOut_def
      exSoldOutProduct_def alertCooldown_def)

lemma applyOps_exOps: "applyOps exInventory exOps = exSoldOut 3000 2"
  by (simp add: applyOps_def exOps_def sale_exInventory sale_exSoldOut update_exSoldOut)

text \<open>One unit of Cola Classic in stock; a sale of a cola takes it to 0, a second sale leaves it
  at 0, and an update to -5 stores 0.\<close>

theorem stock_never_negative_witness:
  "stocksNonNegative exInventory
   \<and> stocksNonNegative (applyOps exInventory exOps)
   \<and> applyOps exInventory exOps = exSoldOut 3000 2
   \<and> updateStock (exInvEnv 3000) (exSoldOut 2000 2) ''p1'' (- 5) ''manual''
       = (Some (exSoldOutProduct 3000 2), exSoldOut 3000 2)
   \<and> currentStock (exSoldOutProduct 3000 2) = 0
   \<and> findProductByName (exSoldOut 1000 1) ''cola'' = Some (''p1'', exSoldOutProduct 1000 1)
   \<and> currentStock (exSoldOutProduct 1000 1) = 0
   \<and> map_of (inventory (handleSaleEvent (exInvEnv 2000) (exSoldOut 1000 1)
        (exSale ''cola'' (3 / 2) 2000))) ''p1'' = Some (exSoldOutProduct 2000 2)
   \<and> currentStock (exSoldOutProduct 2000 2) = 0"
proof -
  have i: "stocksNonNegative exInventory"
    by (simp add: stocksNonNegative_def exInventory_def exProduct_def)
  have n: "productName (exSale ''cola'' (3 / 2) 2000) = Str ''cola''" "''cola'' \<noteq> []"
    "pId (exSoldOutProduct 1000 1) = ''p1''" "currentStock (exSoldOutProduct 1000 1) = 0"
    by (simp_all add: exSale_def exSoldOutProduct_def)
  note a = stock_never_negative [of exInventory exOps "exInvEnv 3000" "''p1''" "- 5" "''manual''"
      "exSoldOutProduct 3000 2" "exSoldOut 3000 2" "exSale ''cola'' (3 / 2) 2000" "''cola''"
      "''p1''" "exSoldOutProduct 1000 1"]
  note b = stock_never_negative [of "exSoldOut 2000 2" "[]" "exInvEnv 3000" "''p1''" "- 5"
      "''manual''" "exSoldOutProduct 3000 2" "exSoldOut 3000 2" "exSale ''cola'' (3 / 2) 2000"
      "''cola''" "''p1''" "exSoldOutProduct 1000 1"]
  note c = stock_never_negative [of "exSoldOut 1000 1" "[]" "exInvEnv 2000" "''p1''" "- 5"
      "''manual''" "exSoldOutProduct 3000 2" "exSoldOut 3000 2" "exSale ''cola'' (3 / 2) 2000"
      "''cola''" "''p1''" "exSoldOutProduct 1000 1"]
  from a i have 1: "stocksNonNegative (applyOps exInventory exOps)" by blast
  from b update_exSoldOut have 2: "currentStock (exSoldOutProduct 3000 2) = 0" by simp
  from c n find_cola_exSoldOut
  have 3: "\<exists>p'. map_of (inventory (handleSaleEvent (exInvEnv 2000) (exSoldOut 1000 1)
        (exSale ''cola'' (3 / 2) 2000))) ''p1'' = Some p' \<and> currentStock p' = 0"
    by blast
  have 4: "map_of (inventory (handleSaleEvent (exInvEnv 2000) (exSoldOut 1000 1)
        (exSale ''cola'' (3 / 2) 2000))) ''p1'' = Some (exSoldOutProduct 2000 2)"
    by (simp add: sale_exSoldOut) (simp add: exSoldOut_def)
  from 3 4 have 5: "currentStock (exSoldOutProduct 2000 2) = 0" by simp
  from i 1 2 5 4 n show ?thesis
    by (simp add: applyOps_exOps update_exSoldOut find_cola_exSoldOut)
qed
section \<open>Category of an added product (claim C10)\<close>

lemma addProduct_entry:
  assumes "addProduct e m pd = (Some p, m')" and "getProductInfo (pdName pd) = Entry v"
  shows "pCategory p = Some (category v) \<and> pEmoji p = Some (emoji v)
    \<and> pColor p = Some (color v) \<and> map_of (inventory m') (pId p) = Some p"
  using assms
  by (auto simp: addProduct_def Let_def inventory_checkStockLevel map_of_mapSet_same
      split: jsval.splits if_splits)

lemma getProductInfo_candy:
  "getProductInfo (Str ''Candy Bar'')
     = Entry \<lparr>emoji = ''U+1F36C'', category = ''snacks'', color = ''#ff69b4''\<rparr>"
  by (simp add: trim_def toLowerCase_def toLowerChar_def isSpace_def PRODUCT_MAPPING_def
      inheritedKey_def)

lemma getProductInfo_constructor: "getProductInfo (Str ''constructor'') = Inherited"
  by (simp add: trim_def toLowerCase_def toLowerChar_def isSpace_def PRODUCT_MAPPING_def
      inheritedKey_def)

lemma addProduct_candy:
  "map_option pCategory (fst (addProduct (exInvEnv 0) newInventoryManager
      (exProductData ''Candy Bar'' ''food''))) = Some (Some ''snacks'')"
  by (simp add: addProduct_def exProductData_def getProductInfo_candy Let_def orElse_def
      validateProductData_def newInventoryManager_def trim_def isSpace_def
      del: getProductInfo.simps)

text \<open>C10 at the name \<open>constructor\<close>.  \<open>PRODUCT_MAPPING['constructor']\<close> is the inherited
  \<open>Object\<close> function, which is truthy, so \<open>getProductInfo\<close> returns it instead of an entry of
  the table; spreading it over the record sets nothing.  The stored record keeps the category
  \<open>snacks\<close> that the caller supplied and has no emoji and no color, where the claim has the
  lookup result (here the default entry, category \<open>other\<close>) overwrite the category.\<close>

theorem addProduct_constructor_keeps_caller_category:
  "getProductInfo (Str ''constructor'') = Inherited
   \<and> map_option (\<lambda>p. (pName p, pCategory p, pEmoji p, pColor p))
        (fst (addProduct (exInvEnv 0) newInventoryManager (exProductData ''constructor'' ''snacks'')))
      = Some (''constructor'', Some ''snacks'', None, None)
   \<and> map_option pCategory
        (map_of (inventory (snd (addProduct (exInvEnv 0) newInventoryManager
           (exProductData ''constructor'' ''snacks'')))) ''p9'')
      = Some (Some ''snacks'')"
  by (simp add: addProduct_def exProductData_def getProductInfo_constructor Let_def orElse_def
      validateProductData_def newInventoryManager_def trim_def isSpace_def checkStockLevel_def
      exInvEnv_def del: getProductInfo.simps)
section \<open>Inbound messages (claim C7)\<close>

lemma validate_badNameSale: "validateSaleData h badNameSale \<noteq> []"
  by (simp add: validateSaleData_def badNameSale_def PRODUCT_NAME_test_def nameChar_def
      isAlpha_def isDigit_def isSpace_def)

text \<open>C7, as stated, fails.  A text frame that is not JSON is decoded to its own text, which is
  not an object; the handler does not drop it but forwards it in a message event.  So is an
  object whose product name is empty, although it fails the validation of a sale.\<close>

theorem non_object_payload_forwarded_counterexample:
  "\<not> typeofObject (Prim (Str ''hello''))
   \<and> dispatched (onMessage exHost 1000 (Prim (Str ''hello'')) newWebSocketManager)
       = [MessageEvent (Prim (Str ''hello'')) 1000]
   \<and> validateSaleData exHost emptyNameSale \<noteq> []
   \<and> dispatched (onMessage exHost 1000 emptyNameSale newWebSocketManager)
       = [MessageEvent emptyNameSale 1000]"
  using validate_emptyNameSale
  by (simp add: onMessage_def dispatchEvent_def newWebSocketManager_def)
    (simp add: emptyNameSale_def)

text \<open>C7, amended.  The message handler drops a payload, dispatching no event and changing
  nothing, exactly when the decoded payload is an object with a truthy \<open>productName\<close> that
  fails the validation of a sale.  Every other payload is forwarded to the subscribers in a
  message event: text that is not JSON and the other values that are not objects, objects
  without a truthy \<open>productName\<close>, and valid sales.  So only payloads that are not invalid
  sales are forwarded.\<close>

theorem onMessage_drops_only_invalid_sales:
  "(typeofObject d \<and> truthy (getProp d ''productName'') \<and> validateSaleData h d \<noteq> []
      \<longrightarrow> onMessage h t d m = m)
   \<and> (\<not> typeofObject d \<longrightarrow> dispatched (onMessage h t d m) = dispatched m @ [MessageEvent d t])
   \<and> (\<not> truthy (getProp d ''productName'')
      \<longrightarrow> dispatched (onMessage h t d m) = dispatched m @ [MessageEvent d t])
   \<and> (validateSaleData h d = []
      \<longrightarrow> dispatched (onMessage h t d m) = dispatched m @ [MessageEvent d t])
   \<and> (dispatched (onMessage h t d m) \<noteq> dispatched m
      \<longrightarrow> \<not> (typeofObject d \<and> truthy (getProp d ''productName'') \<and> validateSaleData h d \<noteq> []))"
proof -
  have "truthyPayload d" if "truthy (getProp d ''productName'')"
    using that by (cases d) simp_all
  then show ?thesis
    by (auto simp: onMessage_def dispatchEvent_def)
qed

text \<open>A sale with a bad product name is dropped; a text frame, a payload without a product name
  and a valid sale are forwarded.\<close>

theorem onMessage_drops_only_invalid_sales_witness:
  "typeofObject badNameSale \<and> truthy (getProp badNameSale ''productName'')
   \<and> validateSaleData exHost badNameSale \<noteq> []
   \<and> onMessage exHost 1000 badNameSale newWebSocketManager = newWebSocketManager
   \<and> \<not> typeofObject (Prim (Str ''hello''))
   \<and> dispatched (onMessage exHost 1000 (Prim (Str ''hello'')) newWebSocketManager)
       = dispatched newWebSocketManager @ [MessageEvent (Prim (Str ''hello'')) 1000]
   \<and> \<not> truthy (getProp emptyNameSale ''productName'')
   \<and> dispatched (onMessage exHost 1000 emptyNameSale newWebSocketManager)
       = dispatched newWebSocketManager @ [MessageEvent emptyNameSale 1000]
   \<and> validateSaleData exHost (colaSale 500) = []
   \<and> dispatched (onMessage exHost 1000 (colaSale 500) newWebSocketManager)
       = dispatched newWebSocketManager @ [MessageEvent (colaSale 500) 1000]"
proof -
  have b: "typeofObject badNameSale" "truthy (getProp badNameSale ''productName'')"
    by (simp_all add: badNameSale_def)
  have e: "\<not> truthy (getProp emptyNameSale ''productName'')"
    by (simp add: emptyNameSale_def)
  have c: "validateSaleData exHost (colaSale 500) = []"
    by (simp add: validate_colaSale)
  have p: "\<not> typeofObject (Prim (Str ''hello''))" by simp
  from onMessage_drops_only_invalid_sales [of badNameSale exHost 1000 newWebSocketManager]
    onMessage_drops_only_invalid_sales [of "Prim (Str ''hello'')" exHost 1000 newWebSocketManager]
    onMessage_drops_only_invalid_sales [of emptyNameSale exHost 1000 newWebSocketManager]
    onMessage_drops_only_invalid_sales [of "colaSale 500" exHost 1000 newWebSocketManager]
    b e c p validate_badNameSale
  show ?thesis by simp
qed

section \<open>Manual disconnect (claim C8)\<close>

lemma exReconnecting_timers: "reconnectTimers exReconnecting = [3500]"
  by (simp add: exReconnecting_def onClose_def connect_def handleReconnect_def
      setConnectionState_def dispatchEvent_def stopHeartbeat_def backoffDelay_def
      newWebSocketManager_def MAX_RECONNECT_ATTEMPTS_def RECONNECT_DELAY_def Let_def)

lemma reconnectTimers_setConnectionState [simp]:
  "reconnectTimers (setConnectionState s m) = reconnectTimers m"
  by (simp add: setConnectionState_def dispatchEvent_def)

lemma reconnectTimers_disconnect: "reconnectTimers (disconnect m) = reconnectTimers m"
  by (simp add: disconnect_def stopHeartbeat_def Let_def)

text \<open>C8, as stated, fails.  After the first connection has closed, a reconnection timer of
  3500 ms is pending.  \<open>disconnect()\<close> does not cancel it (the manager holds no handle of
  it): the timer is still pending when \<open>disconnect()\<close> has returned, and fires later.\<close>

theorem disconnect_keeps_reconnect_timer_counterexample:
  "reconnectTimers exReconnecting = [3500]
   \<and> reconnectTimers (disconnect exReconnecting) = [3500]
   \<and> pendingTimers (disconnect exReconnecting)"
  by (simp add: pendingTimers_def reconnectTimers_disconnect exReconnecting_timers)
lemma disconnect_manuallyClosed: "manuallyClosed (disconnect m)"
  by (simp add: manuallyClosed_def disconnect_def stopHeartbeat_def setConnectionState_def
      dispatchEvent_def Let_def)

lemma deliver_manuallyClosed:
  assumes "manuallyClosed m"
  shows "manuallyClosed (deliver m ev) \<and> reconnectAttempts (deliver m ev) = reconnectAttempts m
    \<and> scheduledDelays (deliver m ev) = scheduledDelays m
    \<and> length (reconnectTimers (deliver m ev)) \<le> length (reconnectTimers m)
    \<and> MaxReconnectAttemptsReached \<notin> set (dispatched (deliver m ev)) - set (dispatched m)"
proof (cases ev)
  case (TimerFires b r)
  with assms show ?thesis
    by (cases "reconnectTimers m") (simp_all add: manuallyClosed_def reconnectTimerFires_def)
next
  case (CloseArrives r)
  with assms show ?thesis
    by (simp add: manuallyClosed_def onClose_def stopHeartbeat_def dispatchEvent_def Let_def)
next
  case (TimeoutFires r)
  with assms show ?thesis
    by (simp add: manuallyClosed_def connectionTimeoutFires_def)
qed

lemma foldl_deliver_manuallyClosed:
  "manuallyClosed m \<Longrightarrow>
     manuallyClosed (foldl deliver m evs)
     \<and> reconnectAttempts (foldl deliver m evs) = reconnectAttempts m
     \<and> scheduledDelays (foldl deliver m evs) = scheduledDelays m
     \<and> length (reconnectTimers (foldl deliver m evs)) \<le> length (reconnectTimers m)"
proof (induction evs arbitrary: m)
  case Nil
  then show ?case by simp
next
  case (Cons ev evs)
  from deliver_manuallyClosed [OF Cons.prems, of ev] Cons.IH [of "deliver m ev"]
  show ?case by auto
qed

text \<open>C8, amended.  \<open>disconnect()\<close> sets the manual-close flag and cancels the heartbeat
  interval and the connection-establishment timeout before the transition to \<open>disconnected\<close>,
  and drops the socket.  A reconnection timer scheduled earlier is not cancelled: it stays
  pending and fires, but its callback, like \<open>handleReconnect\<close> and the close handler, does
  nothing while the flag is set.  So whatever the host delivers after \<open>disconnect()\<close> has
  returned, and until \<open>connect()\<close> is called again, no reconnection attempt occurs: no socket is
  opened, the attempt counter stands, no reconnection is scheduled, and the manager stays
  \<open>disconnected\<close>.\<close>

theorem disconnect_suppresses_reconnection:
  "disconnect m = setConnectionState DISCONNECTED
       (m\<lparr>isManualClose := True, heartbeatInterval := False, heartbeatTimer := False,
          connectionTimeout := False, ws := None\<rparr>)
   \<and> manuallyClosed (disconnect m)
   \<and> reconnectTimers (disconnect m) = reconnectTimers m
   \<and> reconnectTimerFires b r (disconnect m)
       = (disconnect m)\<lparr>reconnectTimers := tl (reconnectTimers m)\<rparr>
   \<and> handleReconnect r (disconnect m) = disconnect m
   \<and> manuallyClosed (foldl deliver (disconnect m) evs)
   \<and> reconnectAttempts (foldl deliver (disconnect m) evs) = reconnectAttempts m
   \<and> scheduledDelays (foldl deliver (disconnect m) evs) = scheduledDelays m
   \<and> length (reconnectTimers (foldl deliver (disconnect m) evs)) \<le> length (reconnectTimers m)"
proof -
  have a: "reconnectAttempts (disconnect m) = reconnectAttempts m"
    "scheduledDelays (disconnect m) = scheduledDelays m"
    by (simp_all add: disconnect_def stopHeartbeat_def setConnectionState_def dispatchEvent_def
        Let_def)
  have f: "reconnectTimerFires b r (disconnect m)
       = (disconnect m)\<lparr>reconnectTimers := tl (reconnectTimers m)\<rparr>"
    using disconnect_manuallyClosed [of m] reconnectTimers_disconnect [of m]
    by (cases "reconnectTimers m") (simp_all add: reconnectTimerFires_def manuallyClosed_def)
  have h: "handleReconnect r (disconnect m) = disconnect m"
    using disconnect_manuallyClosed [of m] by (simp add: handleReconnect_def manuallyClosed_def)
  have d: "disconnect m = setConnectionState DISCONNECTED
       (m\<lparr>isManualClose := True, heartbeatInterval := False, heartbeatTimer := False,
          connectionTimeout := False, ws := None\<rparr>)"
    by (simp add: disconnect_def stopHeartbeat_def Let_def)
  from foldl_deliver_manuallyClosed [OF disconnect_manuallyClosed, of m evs] a f h d
    disconnect_manuallyClosed [of m] reconnectTimers_disconnect [of m]
  show ?thesis by simp
qed

text \<open>The manager with a reconnection pending is disconnected; the timer fires, the close event
  of the old socket arrives and a stale timeout fires: the manager stays disconnected, with one
  attempt counted and one delay computed as before.\<close>

theorem disconnect_suppresses_reconnection_witness:
  "manuallyClosed (disconnect exReconnecting)
   \<and> reconnectTimerFires False 0 (disconnect exReconnecting)
       = (disconnect exReconnecting)\<lparr>reconnectTimers := []\<rparr>
   \<and> manuallyClosed (foldl deliver (disconnect exReconnecting)
        [TimerFires False 0, CloseArrives (1 / 2), TimeoutFires (1 / 2)])
   \<and> reconnectAttempts (foldl deliver (disconnect exReconnecting)
        [TimerFires False 0, CloseArrives (1 / 2), TimeoutFires (1 / 2)]) = 1
   \<and> scheduledDelays (foldl deliver (disconnect exReconnecting)
        [TimerFires False 0, CloseArrives (1 / 2), TimeoutFires (1 / 2)]) = [3500]"
proof -
  have a: "reconnectAttempts exReconnecting = 1" "scheduledDelays exReconnecting = [3500]"
    by (simp_all add: exReconnecting_def onClose_def connect_def handleReconnect_def
        setConnectionState_def dispatchEvent_def stopHeartbeat_def backoffDelay_def
        newWebSocketManager_def MAX_RECONNECT_ATTEMPTS_def RECONNECT_DELAY_def Let_def)
  note t = disconnect_suppresses_reconnection [of exReconnecting False 0
      "[TimerFires False 0, CloseArrives (1 / 2), TimeoutFires (1 / 2)]",
      unfolded a exReconnecting_timers list.sel]
  then show ?thesis by blast
qed
section \<open>Reconnection policy (claim C5)\<close>

lemma backoffDelay_le: "backoffDelay base k r \<le> 30000"
  by (simp add: backoffDelay_def)

lemma backoffDelay_mono:
  assumes "1000 \<le> base" and "1 \<le> k" and "0 \<le> r" and "r < 1" and "0 \<le> r'" and "r' < 1"
  shows "backoffDelay base k r \<le> backoffDelay base (Suc k) r'"
proof -
  obtain j where k: "k = Suc j" using assms(2) by (cases k) auto
  have p: "(1::rat) \<le> 2 ^ j" by simp
  have "1000 * 1 \<le> base * 2 ^ j"
    using assms(1) p by (intro mult_mono) auto
  then have b: "1000 \<le> base * 2 ^ j" by simp
  have "r * 1000 \<le> 1000" "0 \<le> r' * 1000" using assms by simp_all
  with b have "base * 2 ^ j + r * 1000 \<le> base * (2 * 2 ^ j) + r' * 1000"
    by (simp add: algebra_simps)
  then show ?thesis
    by (simp add: backoffDelay_def k min_le_iff_disj)
qed

lemma attemptDelays_nth:
  assumes "i < length (attemptDelays base k n rs)"
  shows "attemptDelays base k n rs ! i = backoffDelay base (Suc k + i) (rs ! i)"
  using assms by (simp add: attemptDelays_def del: upt_Suc)

lemma attemptDelays_bounded: "list_all (\<lambda>d. d \<le> 30000) (attemptDelays base k n rs)"
  by (auto simp: attemptDelays_def list_all_iff backoffDelay_le)

lemma attemptDelays_sorted:
  assumes "1000 \<le> base" and "list_all (\<lambda>r. 0 \<le> r \<and> r < 1) rs"
  shows "sorted (attemptDelays base k n rs)"
proof -
  have "attemptDelays base k n rs ! i \<le> attemptDelays base k n rs ! Suc i"
    if "Suc i < length (attemptDelays base k n rs)" for i
  proof -
    from that have l: "Suc i < length rs" by (simp add: attemptDelays_def del: upt_Suc)
    then have "0 \<le> rs ! i" "rs ! i < 1" "0 \<le> rs ! Suc i" "rs ! Suc i < 1"
      using assms(2) by (auto simp: list_all_length)
    then have "backoffDelay base (Suc k + i) (rs ! i)
        \<le> backoffDelay base (Suc (Suc k + i)) (rs ! Suc i)"
      using assms(1) by (intro backoffDelay_mono) auto
    with that show ?thesis by (simp add: attemptDelays_nth)
  qed
  then show ?thesis by (simp add: sorted_iff_nth_Suc)
qed

lemma attemptDelays_none: "attemptDelays base k 0 rs = []"
  by (simp add: attemptDelays_def del: upt_Suc)

lemma attemptDelays_step:
  "k < n \<Longrightarrow> attemptDelays base k (n - k) (r # rs)
     = backoffDelay base (Suc k) r # attemptDelays base (Suc k) (n - Suc k) rs"
  by (simp add: attemptDelays_def upt_conv_Cons del: upt_Suc)

lemma gaveUp_setConnectionState [simp]: "gaveUp (setConnectionState s m) = gaveUp m"
  by (simp add: gaveUp_def setConnectionState_def dispatchEvent_def)

lemma handleReconnect_gives_up:
  assumes "\<not> isManualClose m" and "maxReconnectAttempts m \<le> reconnectAttempts m"
  shows "gaveUp (handleReconnect r m) = gaveUp m + 1
    \<and> reconnectTimers (handleReconnect r m) = reconnectTimers m
    \<and> scheduledDelays (handleReconnect r m) = scheduledDelays m
    \<and> reconnectAttempts (handleReconnect r m) = reconnectAttempts m"
  using assms
  by (simp add: handleReconnect_def gaveUp_def setConnectionState_def dispatchEvent_def)

lemma onClose_gives_up:
  assumes "\<not> isManualClose m" and "maxReconnectAttempts m \<le> reconnectAttempts m"
  shows "gaveUp (onClose r m) = gaveUp m + 1
    \<and> reconnectTimers (onClose r m) = reconnectTimers m
    \<and> scheduledDelays (onClose r m) = scheduledDelays m"
  using assms
  by (simp add: onClose_def handleReconnect_def gaveUp_def setConnectionState_def
      dispatchEvent_def stopHeartbeat_def Let_def)

lemma onClose_schedules:
  assumes "\<not> isManualClose m" and "reconnectAttempts m < maxReconnectAttempts m"
  shows "reconnectTimers (onClose r m)
      = reconnectTimers m @ [backoffDelay (reconnectDelay m) (Suc (reconnectAttempts m)) r]"
  using assms
  by (simp add: onClose_def handleReconnect_def setConnectionState_def dispatchEvent_def
      stopHeartbeat_def Let_def)

lemma retry_after_close:
  assumes "\<not> isManualClose m" and "reconnectAttempts m < maxReconnectAttempts m"
    and "reconnectTimers m = []"
  shows "\<not> isManualClose (reconnectTimerFires False 0 (onClose r m))
    \<and> reconnectTimers (reconnectTimerFires False 0 (onClose r m)) = []
    \<and> reconnectAttempts (reconnectTimerFires False 0 (onClose r m)) = Suc (reconnectAttempts m)
    \<and> maxReconnectAttempts (reconnectTimerFires False 0 (onClose r m)) = maxReconnectAttempts m
    \<and> reconnectDelay (reconnectTimerFires False 0 (onClose r m)) = reconnectDelay m
    \<and> scheduledDelays (reconnectTimerFires False 0 (onClose r m))
        = scheduledDelays m @ [backoffDelay (reconnectDelay m) (Suc (reconnectAttempts m)) r]
    \<and> gaveUp (reconnectTimerFires False 0 (onClose r m)) = gaveUp m"
  using assms
  by (cases "ws m")
    (simp_all add: reconnectTimerFires_def onClose_def handleReconnect_def connect_def
      setConnectionState_def dispatchEvent_def stopHeartbeat_def gaveUp_def Let_def)

lemma failingRun_gives_up_once:
  "\<not> isManualClose m \<Longrightarrow> reconnectTimers m = [] \<Longrightarrow>
   maxReconnectAttempts m - reconnectAttempts m < length rs \<Longrightarrow>
     gaveUp (failingRun rs m) = gaveUp m + 1
     \<and> reconnectTimers (failingRun rs m) = []
     \<and> scheduledDelays (failingRun rs m)
         = scheduledDelays m @ attemptDelays (reconnectDelay m) (reconnectAttempts m)
             (maxReconnectAttempts m - reconnectAttempts m) rs"
proof (induction rs arbitrary: m)
  case Nil
  then show ?case by simp
next
  case (Cons r rs)
  show ?case
  proof (cases "reconnectAttempts m < maxReconnectAttempts m")
    case False
    then have g: "maxReconnectAttempts m \<le> reconnectAttempts m" by simp
    from onClose_gives_up [OF Cons.prems(1) g, of r] Cons.prems(2) g
    show ?thesis by (simp add: Let_def attemptDelays_none)
  next
    case True
    let ?m2 = "reconnectTimerFires False 0 (onClose r m)"
    note s = retry_after_close [OF Cons.prems(1) True Cons.prems(2), of r]
    from s Cons.prems(3) True
    have l: "maxReconnectAttempts ?m2 - reconnectAttempts ?m2 < length rs" by simp
    from s have a: "\<not> isManualClose ?m2" and b: "reconnectTimers ?m2 = []" by simp_all
    note ih = Cons.IH [OF a b l]
    have t: "reconnectTimers (onClose r m) \<noteq> []"
      using onClose_schedules [OF Cons.prems(1) True, of r] by simp
    have f: "failingRun (r # rs) m = failingRun rs ?m2"
      using t by (simp add: Let_def)
    from ih s show ?thesis
      unfolding f by (simp add: attemptDelays_step [OF True])
  qed
qed

lemma exConnected100_fields:
  "\<not> isManualClose exConnected100" "reconnectTimers exConnected100 = []"
  "reconnectAttempts exConnected100 = 0" "maxReconnectAttempts exConnected100 = 10"
  "reconnectDelay exConnected100 = 100" "scheduledDelays exConnected100 = []"
  by (simp_all add: exConnected100_def onOpen_def connect_def setConnectionState_def
      dispatchEvent_def startHeartbeat_def stopHeartbeat_def newWebSocketManager_def
      MAX_RECONNECT_ATTEMPTS_def Let_def)

lemma exConnected_fields:
  "\<not> isManualClose exConnected" "reconnectTimers exConnected = []"
  "reconnectAttempts exConnected = 0" "maxReconnectAttempts exConnected = 10"
  "reconnectDelay exConnected = 3000" "scheduledDelays exConnected = []"
  "gaveUp exConnected = 0"
  by (simp_all add: exConnected_def onOpen_def connect_def setConnectionState_def
      dispatchEvent_def startHeartbeat_def stopHeartbeat_def newWebSocketManager_def
      MAX_RECONNECT_ATTEMPTS_def RECONNECT_DELAY_def gaveUp_def Let_def)

text \<open>The connection timeout closes the socket and calls \<open>handleReconnect\<close> itself, and
  the close event of that socket calls it again.  When the attempts are exhausted on this path,
  the signal is emitted twice.\<close>

lemma timeout_then_close_signals_twice:
  assumes "\<not> isManualClose m" and "connectionTimeout m" and "ws m = Some WS_CONNECTING"
    and "maxReconnectAttempts m \<le> reconnectAttempts m"
  shows "gaveUp (onClose r' (connectionTimeoutFires r m)) = gaveUp m + 2"
  using assms
  by (simp add: onClose_def connectionTimeoutFires_def handleReconnect_def gaveUp_def
      setConnectionState_def dispatchEvent_def stopHeartbeat_def Let_def)

text \<open>C5, as stated, fails.  With a base delay of 100 ms, a draw of 0.999 for the first attempt
  and of 0 for the second, the first delay is 1099 ms and the second 200 ms: the delays
  decrease.\<close>

theorem small_base_delay_counterexample:
  "reconnectDelay exConnected100 = 100
   \<and> backoffDelay 100 1 (999 / 1000) = 1099 \<and> backoffDelay 100 2 0 = 200
   \<and> scheduledDelays (failingRun [999 / 1000, 0] exConnected100) = [1099, 200]
   \<and> \<not> sorted (scheduledDelays (failingRun [999 / 1000, 0] exConnected100))"
proof -
  note f = exConnected100_fields
  have 1: "scheduledDelays (reconnectTimerFires False 0 (onClose (999 / 1000) exConnected100))
      = [1099]"
    using retry_after_close [of exConnected100 "999 / 1000"] f
    by (simp add: backoffDelay_def)
  have 2: "scheduledDelays (reconnectTimerFires False 0 (onClose 0
        (reconnectTimerFires False 0 (onClose (999 / 1000) exConnected100)))) = [1099, 200]"
    using retry_after_close [of exConnected100 "999 / 1000"] f
      retry_after_close [of "reconnectTimerFires False 0 (onClose (999 / 1000) exConnected100)" 0]
    by (simp add: backoffDelay_def)
  have 3: "reconnectTimers (onClose (999 / 1000) exConnected100) \<noteq> []"
    using onClose_schedules [of exConnected100 "999 / 1000"] f by simp
  have 4: "reconnectTimers (onClose 0
        (reconnectTimerFires False 0 (onClose (999 / 1000) exConnected100))) \<noteq> []"
    using retry_after_close [of exConnected100 "999 / 1000"] f
      onClose_schedules [of "reconnectTimerFires False 0 (onClose (999 / 1000) exConnected100)" 0]
    by simp
  have 5: "scheduledDelays (failingRun [999 / 1000, 0] exConnected100) = [1099, 200]"
    using 2 3 4 by (simp add: Let_def)
  show ?thesis
    unfolding 5 using f by (simp add: backoffDelay_def)
qed

text \<open>C5, amended.  Every delay that \<open>handleReconnect\<close> computes is at most 30000 ms, for any
  base delay and any random draw.  When the configured base delay is at least 1000 ms (the
  default is 3000 ms) and every draw lies in [0, 1), the delay of an attempt is at most that of
  the next attempt, so the delays of attempts 1..k are non-decreasing.  A call of
  \<open>handleReconnect\<close> that finds the attempt counter at or above the configured maximum emits
  the \<open>maxReconnectAttemptsReached\<close> signal once and schedules no reconnection.  In a run in
  which every connection attempt ends in one close event (given one random draw per closure,
  and more draws than attempts left), the signal is emitted exactly once in total, no
  reconnection timer is left pending, and the delays computed are those of the attempts left,
  each at most 30000 ms and, under the condition above, non-decreasing.\<close>

theorem reconnection_backoff_policy:
  "backoffDelay base k r \<le> 30000
   \<and> (1000 \<le> base \<and> 1 \<le> k \<and> 0 \<le> r \<and> r < 1 \<and> 0 \<le> r' \<and> r' < 1
        \<longrightarrow> backoffDelay base k r \<le> backoffDelay base (Suc k) r')
   \<and> (\<not> isManualClose m \<and> maxReconnectAttempts m \<le> reconnectAttempts m
        \<longrightarrow> gaveUp (handleReconnect r m) = gaveUp m + 1
          \<and> reconnectTimers (handleReconnect r m) = reconnectTimers m
          \<and> scheduledDelays (handleReconnect r m) = scheduledDelays m)
   \<and> (\<not> isManualClose m \<and> reconnectTimers m = []
        \<and> maxReconnectAttempts m - reconnectAttempts m < length rs
        \<longrightarrow> gaveUp (failingRun rs m) = gaveUp m + 1
          \<and> reconnectTimers (failingRun rs m) = []
          \<and> scheduledDelays (failingRun rs m)
              = scheduledDelays m @ attemptDelays (reconnectDelay m) (reconnectAttempts m)
                  (maxReconnectAttempts m - reconnectAttempts m) rs
          \<and> list_all (\<lambda>d. d \<le> 30000) (attemptDelays (reconnectDelay m) (reconnectAttempts m)
                  (maxReconnectAttempts m - reconnectAttempts m) rs)
          \<and> (1000 \<le> reconnectDelay m \<and> list_all (\<lambda>r. 0 \<le> r \<and> r < 1) rs
               \<longrightarrow> sorted (attemptDelays (reconnectDelay m) (reconnectAttempts m)
                  (maxReconnectAttempts m - reconnectAttempts m) rs)))"
proof (intro conjI impI)
  show "backoffDelay base k r \<le> 30000" by (rule backoffDelay_le)
next
  assume "1000 \<le> base \<and> 1 \<le> k \<and> 0 \<le> r \<and> r < 1 \<and> 0 \<le> r' \<and> r' < 1"
  then show "backoffDelay base k r \<le> backoffDelay base (Suc k) r'"
    by (intro backoffDelay_mono) auto
next
  assume a: "\<not> isManualClose m \<and> maxReconnectAttempts m \<le> reconnectAttempts m"
  then have "\<not> isManualClose m" "maxReconnectAttempts m \<le> reconnectAttempts m" by auto
  note g = handleReconnect_gives_up [OF this, of r]
  from g show "gaveUp (handleReconnect r m) = gaveUp m + 1" by simp
  from g show "reconnectTimers (handleReconnect r m) = reconnectTimers m" by simp
  from g show "scheduledDelays (handleReconnect r m) = scheduledDelays m" by simp
next
  assume a: "\<not> isManualClose m \<and> reconnectTimers m = []
        \<and> maxReconnectAttempts m - reconnectAttempts m < length rs"
  then have "\<not> isManualClose m" "reconnectTimers m = []"
    "maxReconnectAttempts m - reconnectAttempts m < length rs" by auto
  note g = failingRun_gives_up_once [OF this]
  from g show "gaveUp (failingRun rs m) = gaveUp m + 1" by simp
  from g show "reconnectTimers (failingRun rs m) = []" by simp
  from g show "scheduledDelays (failingRun rs m)
              = scheduledDelays m @ attemptDelays (reconnectDelay m) (reconnectAttempts m)
                  (maxReconnectAttempts m - reconnectAttempts m) rs" by simp
  show "list_all (\<lambda>d. d \<le> 30000) (attemptDelays (reconnectDelay m) (reconnectAttempts m)
                  (maxReconnectAttempts m - reconnectAttempts m) rs)"
    by (rule attemptDelays_bounded)
  assume "1000 \<le> reconnectDelay m \<and> list_all (\<lambda>r. 0 \<le> r \<and> r < 1) rs"
  then show "sorted (attemptDelays (reconnectDelay m) (reconnectAttempts m)
                  (maxReconnectAttempts m - reconnectAttempts m) rs)"
    by (intro attemptDelays_sorted) auto
qed

lemma attemptDelays_default:
  "attemptDelays 3000 0 10 (replicate 11 (1 / 2))
     = [3500, 6500, 12500, 24500, 30000, 30000, 30000, 30000, 30000, 30000]"
  by code_simp

text \<open>The default configuration (base delay 3000 ms, ten attempts) against a server that stays
  unreachable, every draw being 0.5: ten delays, non-decreasing and capped at 30000 ms, then
  the signal, once.\<close>

theorem reconnection_backoff_policy_witness:
  "\<not> isManualClose exConnected \<and> reconnectTimers exConnected = []
   \<and> maxReconnectAttempts exConnected - reconnectAttempts exConnected
       < length (replicate 11 (1 / 2 :: rat))
   \<and> 1000 \<le> reconnectDelay exConnected
   \<and> list_all (\<lambda>r. 0 \<le> r \<and> r < 1) (replicate 11 (1 / 2 :: rat))
   \<and> gaveUp (failingRun (replicate 11 (1 / 2)) exConnected) = 1
   \<and> reconnectTimers (failingRun (replicate 11 (1 / 2)) exConnected) = []
   \<and> scheduledDelays (failingRun (replicate 11 (1 / 2)) exConnected)
       = [3500, 6500, 12500, 24500, 30000, 30000, 30000, 30000, 30000, 30000]
   \<and> sorted [3500, 6500, 12500, 24500, 30000, 30000, 30000, 30000, 30000, 30000 :: rat]
   \<and> backoffDelay 3000 1 (1 / 2) \<le> backoffDelay 3000 (Suc 1) (1 / 2)
   \<and> maxReconnectAttempts (exConnected\<lparr>reconnectAttempts := 10\<rparr>)
       \<le> reconnectAttempts (exConnected\<lparr>reconnectAttempts := 10\<rparr>)
   \<and> gaveUp (handleReconnect (1 / 2) (exConnected\<lparr>reconnectAttempts := 10\<rparr>)) = 1
   \<and> reconnectTimers (handleReconnect (1 / 2) (exConnected\<lparr>reconnectAttempts := 10\<rparr>)) = []"
proof -
  note f = exConnected_fields
  have l: "list_all (\<lambda>r. 0 \<le> r \<and> r < 1) (replicate 11 (1 / 2 :: rat))"
    by (simp add: list_all_iff)
  have n: "maxReconnectAttempts exConnected - reconnectAttempts exConnected
       < length (replicate 11 (1 / 2 :: rat))"
    using f by simp
  have g: "gaveUp (exConnected\<lparr>reconnectAttempts := 10\<rparr>) = 0"
    using f by (simp add: gaveUp_def)
  note t = reconnection_backoff_policy [of 3000 1 "1 / 2" "1 / 2" exConnected
      "replicate 11 (1 / 2)"]
  note u = reconnection_backoff_policy [of 3000 1 "1 / 2" "1 / 2"
      "exConnected\<lparr>reconnectAttempts := 10\<rparr>" "[]"]
  from t f n l have r: "gaveUp (failingRun (replicate 11 (1 / 2)) exConnected) = 1"
    "reconnectTimers (failingRun (replicate 11 (1 / 2)) exConnected) = []"
    "scheduledDelays (failingRun (replicate 11 (1 / 2)) exConnected)
       = attemptDelays 3000 0 10 (replicate 11 (1 / 2))"
    "sorted (attemptDelays 3000 0 10 (replicate 11 (1 / 2)))"
    "backoffDelay 3000 1 (1 / 2) \<le> backoffDelay 3000 (Suc 1) (1 / 2)"
    by simp_all
  from u f g have h: "gaveUp (handleReconnect (1 / 2) (exConnected\<lparr>reconnectAttempts := 10\<rparr>)) = 1"
    "reconnectTimers (handleReconnect (1 / 2) (exConnected\<lparr>reconnectAttempts := 10\<rparr>)) = []"
    by simp_all
  from r h f n l show ?thesis
    unfolding attemptDelays_default by simp
qed

end
